theory Spec2Isabelle
  imports Main
begin

section \<open>Values exchanged with the outside world\<close>

text \<open>
  A parsed JSON document, as \<^verbatim>\<open>r.json()\<close> hands it to the code. \<open>JNull\<close> is Python's
  \<^verbatim>\<open>None\<close>; an object keeps its keys in document order and is read with \<open>map_of\<close>.
  JSON numbers are integers here (the hosting API sends no fractions in the fields read).
\<close>

datatype json =
    JNull
  | JBool bool
  | JNum int
  | JStr string
  | JArr "json list"
  | JObj "(string \<times> json) list"

text \<open>
  A raised Python exception: its class name and \<^verbatim>\<open>str(e)\<close>. The texts of the
  interpreter's own exceptions are shortened; no result depends on them.
\<close>

datatype exn = Exn (exn_class: string) (exn_str: string)

text \<open>
  The response object of the HTTP client capability (\<^verbatim>\<open>src/network/client.py\<close> is not part
  of the sources). \<open>json_body\<close> is what \<^verbatim>\<open>r.json()\<close> does (\<open>Inl\<close>: it raises),
  \<open>status_error\<close> is what \<^verbatim>\<open>r.raise_for_status()\<close> does (\<open>Some\<close>: it raises).
\<close>

record response =
  status_code :: int
  json_body :: "exn + json"
  content :: string
  status_error :: "exn option"

datatype outcome = Raises exn | Responds response

type_synonym hdrs = "(string \<times> string) list"

text \<open>A request: the URL and the \<^verbatim>\<open>headers=\<close> argument (\<open>None\<close> when it is not passed).\<close>

type_synonym request = "string \<times> hdrs option"

text \<open>The remote side: what the \<open>n\<close>-th request of the process, counted from 0, is answered.\<close>

type_synonym net = "nat \<Rightarrow> request \<Rightarrow> outcome"

text \<open>
  An f-string whose interpolated values are kept as values: \<open>Lit\<close> is literal text,
  \<open>Fmt\<close> a JSON-derived value under \<^verbatim>\<open>str()\<close>, \<open>FmtDate\<close> a datetime under \<^verbatim>\<open>str()\<close>.
\<close>

datatype datetime = Naive int | Aware int int

datatype fpart = Lit string | Fmt json | FmtDate "datetime option"

datatype level = Debug | Info | Warning | Error

type_synonym log_entry = "level \<times> fpart list"

text \<open>
  Everything the code mutates or emits: the requests sent so far (oldest first), the log,
  local storage (path to bytes), the destinations of the \<^verbatim>\<open>write_bytes\<close> calls so far
  (oldest first) and \<^verbatim>\<open>self.downloaded_files\<close>.
\<close>

record world =
  sent :: "request list"
  logged :: "log_entry list"
  files :: "string \<rightharpoonup> string"
  written :: "string list"
  downloaded_files :: "string set"

definition client_get :: "net \<Rightarrow> request \<Rightarrow> world \<Rightarrow> outcome \<times> world" where
  "client_get nt rq w = (nt (length (sent w)) rq, w\<lparr>sent := sent w @ [rq]\<rparr>)"

definition log_msg :: "level \<Rightarrow> fpart list \<Rightarrow> world \<Rightarrow> world" where
  "log_msg lv m w = w\<lparr>logged := logged w @ [(lv, m)]\<rparr>"

section \<open>Python built-ins the code relies on\<close>

fun digit_char :: "nat \<Rightarrow> char" where
  "digit_char n = char_of (48 + n)"

fun show_nat :: "nat \<Rightarrow> string" where
  "show_nat n = (if n < 10 then [digit_char n] else show_nat (n div 10) @ [digit_char (n mod 10)])"

declare show_nat.simps [simp del]

definition show_int :: "int \<Rightarrow> string" where
  "show_int i = (if i < 0 then CHR ''-'' # show_nat (nat (- i)) else show_nat (nat i))"

text \<open>\<^verbatim>\<open>d.get(key, default)\<close>: only a dict has the method.\<close>

fun py_get :: "json \<Rightarrow> string \<Rightarrow> json \<Rightarrow> exn + json" where
  "py_get (JObj kvs) k d = Inr (case map_of kvs k of None \<Rightarrow> d | Some v \<Rightarrow> v)"
| "py_get _ k d = Inl (Exn ''AttributeError'' ''object has no attribute get'')"

text \<open>\<^verbatim>\<open>key in x\<close> for a string key: dict membership, list membership, substring test.\<close>

fun is_substring :: "string \<Rightarrow> string \<Rightarrow> bool" where
  "is_substring s [] = (s = [])"
| "is_substring s (c # cs) = (take (length s) (c # cs) = s \<or> is_substring s cs)"

fun py_in :: "string \<Rightarrow> json \<Rightarrow> exn + bool" where
  "py_in k (JObj kvs) = Inr (k \<in> fst ` set kvs)"
| "py_in k (JArr xs) = Inr (JStr k \<in> set xs)"
| "py_in k (JStr s) = Inr (is_substring k s)"
| "py_in k _ = Inl (Exn ''TypeError'' ''argument is not iterable'')"

text \<open>\<^verbatim>\<open>x[key]\<close> for a string key.\<close>

fun py_item :: "json \<Rightarrow> string \<Rightarrow> exn + json" where
  "py_item (JObj kvs) k =
     (case map_of kvs k of None \<Rightarrow> Inl (Exn ''KeyError'' k) | Some v \<Rightarrow> Inr v)"
| "py_item _ k = Inl (Exn ''TypeError'' ''indices must be integers'')"

text \<open>
  \<^verbatim>\<open>time.localtime\<close> depends on the platform (time zone, clock, range of \<^verbatim>\<open>time_t\<close>), so
  it is a parameter \<open>lt\<close>: \<open>None\<close> asks for the current time. What the code fixes is
  which arguments reach it.
\<close>

record struct_time =
  tm_year :: int
  tm_mon :: int
  tm_mday :: int
  tm_hour :: int
  tm_min :: int
  tm_sec :: int

type_synonym localtime = "int option \<Rightarrow> exn + struct_time"

fun time_localtime :: "localtime \<Rightarrow> json \<Rightarrow> exn + struct_time" where
  "time_localtime lt JNull = lt None"
| "time_localtime lt (JNum n) = lt (Some n)"
| "time_localtime lt (JBool b) = lt (Some (if b then 1 else 0))"
| "time_localtime lt _ = Inl (Exn ''TypeError'' ''an integer is required'')"

definition pad2 :: "int \<Rightarrow> string" where
  "pad2 i = (if 0 \<le> i \<and> i < 10 then CHR ''0'' # show_int i else show_int i)"

text \<open>\<^verbatim>\<open>time.strftime("%Y-%m-%d %H:%M:%S", t)\<close>.\<close>

definition strftime :: "struct_time \<Rightarrow> string" where
  "strftime t =
     show_int (tm_year t) @ ''-'' @ pad2 (tm_mon t) @ ''-'' @ pad2 (tm_mday t) @ '' '' @
     pad2 (tm_hour t) @ '':'' @ pad2 (tm_min t) @ '':'' @ pad2 (tm_sec t)"

section \<open>Configuration\<close>

text \<open>
  A CDN URL template (\<^verbatim>\<open>CN_CDN_LIST\<close>, \<^verbatim>\<open>GLOBAL_CDN_LIST\<close> of \<^verbatim>\<open>src/constants.py\<close>, not
  part of the sources) is kept parsed: literal text and the three placeholders.
\<close>

datatype seg = Text string | Repo | Sha | Path

type_synonym template = "seg list"

record config =
  api_base :: string
  headers :: hdrs
  github_headers :: hdrs
  is_cn :: bool
  cn_cdn_list :: "template list"
  global_cdn_list :: "template list"
  repo_list :: "string list"

section \<open>GitHubAPI.check_rate_limit\<close>

text \<open>A value of the returned dict: a JSON-derived value, a string, or an f-string.\<close>

datatype pyval = PJ json | PS string | PF "fpart list"

type_synonym pydict = "(string \<times> pyval) list"

text \<open>The body of the \<^verbatim>\<open>try\<close> block, lines 29 to 52.\<close>

definition check_rate_limit_try ::
  "config \<Rightarrow> localtime \<Rightarrow> net \<Rightarrow> world \<Rightarrow> (exn + pydict) \<times> world" where
  "check_rate_limit_try cfg lt nt w =
     (case client_get nt (api_base cfg @ ''/rate_limit'', Some (headers cfg)) w of
        (Raises e, w1) \<Rightarrow> (Inl e, w1)
      | (Responds r, w1) \<Rightarrow>
          if status_code r \<noteq> 200 then
            (let error_msg = ''GitHub rate limit check failed with status '' @ show_int (status_code r)
             in (Inr [(''error'', PS error_msg)], log_msg Error [Lit error_msg] w1))
          else
            (case json_body r of
               Inl e \<Rightarrow> (Inl e, w1)
             | Inr r_json \<Rightarrow>
                 (case py_get r_json ''rate'' (JObj []) of
                    Inl e \<Rightarrow> (Inl e, w1)
                  | Inr rate_limit \<Rightarrow>
                      (case py_get rate_limit ''remaining'' (JNum 0) of
                         Inl e \<Rightarrow> (Inl e, w1)
                       | Inr remaining \<Rightarrow>
                           (case py_get rate_limit ''limit'' (JNum 60) of
                              Inl e \<Rightarrow> (Inl e, w1)
                            | Inr limit \<Rightarrow>
                                (case py_get rate_limit ''reset'' (JNum 0) of
                                   Inl e \<Rightarrow> (Inl e, w1)
                                 | Inr reset_time \<Rightarrow>
                                     (case time_localtime lt reset_time of
                                        Inl e \<Rightarrow> (Inl e, w1)
                                      | Inr t \<Rightarrow>
                                          (let reset_formatted = strftime t;
                                               w2 = log_msg Info
                                                      [Lit ''GitHub API requests remaining: '',
                                                       Fmt remaining, Lit ''/'', Fmt limit] w1
                                           in (case py_get rate_limit ''used'' (JNum 0) of
                                                 Inl e \<Rightarrow> (Inl e, w2)
                                               | Inr used \<Rightarrow>
                                                   (Inr [(''limit'', PJ limit),
                                                         (''remaining'', PJ remaining),
                                                         (''reset'', PJ reset_time),
                                                         (''used'', PJ used),
                                                         (''reset_formatted'', PS reset_formatted),
                                                         (''reset_relative'',
                                                            PF [Lit ''<t:'', Fmt reset_time, Lit '':R>''])],
                                                    w2))))))))))"

text \<open>The whole method: the \<^verbatim>\<open>except Exception\<close> handler of lines 54 to 57 around the block.\<close>

definition check_rate_limit ::
  "config \<Rightarrow> localtime \<Rightarrow> net \<Rightarrow> world \<Rightarrow> (exn + pydict) \<times> world" where
  "check_rate_limit cfg lt nt w =
     (case check_rate_limit_try cfg lt nt w of
        (Inl e, w1) \<Rightarrow>
          (let error_msg = ''Rate limit check failed: '' @ exn_str e
           in (Inr [(''error'', PS error_msg)], log_msg Error [Lit error_msg] w1))
      | (Inr d, w1) \<Rightarrow> (Inr d, w1))"

section \<open>GitHubAPI.fetch_file\<close>

text \<open>\<^verbatim>\<open>cdn_template.format(repo=repo, sha=sha, path=path)\<close>.\<close>

fun format_seg :: "string \<Rightarrow> string \<Rightarrow> string \<Rightarrow> seg \<Rightarrow> string" where
  "format_seg repo sha path (Text s) = s"
| "format_seg repo sha path Repo = repo"
| "format_seg repo sha path Sha = sha"
| "format_seg repo sha path Path = path"

definition format_template :: "template \<Rightarrow> string \<Rightarrow> string \<Rightarrow> string \<Rightarrow> string" where
  "format_template t repo sha path = concat (map (format_seg repo sha path) t)"

text \<open>The UTF-8 bytes of the three Chinese message texts of lines 102 and 104.\<close>

definition msg_from :: string where
  "msg_from = [CHR 0xE4, CHR 0xBB, CHR 0x8E, CHR 0x20]"

definition msg_download_failed :: string where
  "msg_download_failed =
     [CHR 0x20, CHR 0xE4, CHR 0xB8, CHR 0x8B, CHR 0xE8, CHR 0xBD, CHR 0xBD, CHR 0xE5, CHR 0xA4,
      CHR 0xB1, CHR 0xE8, CHR 0xB4, CHR 0xA5, CHR 0x3A, CHR 0x20]"

definition msg_cannot_download :: string where
  "msg_cannot_download =
     [CHR 0xE6, CHR 0x97, CHR 0xA0, CHR 0xE6, CHR 0xB3, CHR 0x95, CHR 0xE4, CHR 0xB8, CHR 0x8B,
      CHR 0xE8, CHR 0xBD, CHR 0xBD, CHR 0xE6, CHR 0x96, CHR 0x87, CHR 0xE4, CHR 0xBB, CHR 0xB6,
      CHR 0x3A, CHR 0x20]"

text \<open>The inner loop, lines 95 to 102: one pass over the CDN list, \<open>Some\<close> at the first 200.\<close>

fun try_cdns ::
  "config \<Rightarrow> net \<Rightarrow> string \<Rightarrow> string \<Rightarrow> string \<Rightarrow> template list \<Rightarrow> world \<Rightarrow> string option \<times> world" where
  "try_cdns cfg nt repo sha path [] w = (None, w)"
| "try_cdns cfg nt repo sha path (cdn_template # rest) w =
     (let url = format_template cdn_template repo sha path in
      case client_get nt (url, Some (headers cfg)) w of
        (Responds r, w1) \<Rightarrow>
          if status_code r = 200 then (Some (content r), w1)
          else try_cdns cfg nt repo sha path rest w1
      | (Raises e, w1) \<Rightarrow>
          try_cdns cfg nt repo sha path rest
            (log_msg Debug [Lit (msg_from @ url @ msg_download_failed @ exn_str e)] w1))"

text \<open>The outer loop, line 94: \<open>k\<close> passes are left.\<close>

fun attempts ::
  "nat \<Rightarrow> config \<Rightarrow> net \<Rightarrow> string \<Rightarrow> string \<Rightarrow> string \<Rightarrow> template list \<Rightarrow> world \<Rightarrow> string option \<times> world" where
  "attempts 0 cfg nt repo sha path cdn_list w = (None, w)"
| "attempts (Suc k) cfg nt repo sha path cdn_list w =
     (case try_cdns cfg nt repo sha path cdn_list w of
        (Some c, w1) \<Rightarrow> (Some c, w1)
      | (None, w1) \<Rightarrow> attempts k cfg nt repo sha path cdn_list w1)"

definition fetch_file ::
  "config \<Rightarrow> net \<Rightarrow> string \<Rightarrow> string \<Rightarrow> string \<Rightarrow> world \<Rightarrow> (exn + string) \<times> world" where
  "fetch_file cfg nt repo sha path w =
     (let cdn_list = (if is_cn cfg then cn_cdn_list cfg else global_cdn_list cfg) in
      case attempts 3 cfg nt repo sha path cdn_list w of
        (Some c, w1) \<Rightarrow> (Inr c, w1)
      | (None, w1) \<Rightarrow> (Inl (Exn ''Exception'' (msg_cannot_download @ path)), w1))"

section \<open>GitHubAPI.get_latest_repo_info\<close>

text \<open>
  A \<^verbatim>\<open>datetime\<close>: \<open>Naive t\<close> has no time zone, \<open>Aware t off\<close> is the instant \<open>t\<close> (counted
  in UTC) with UTC offset \<open>off\<close>. \<^verbatim>\<open>a > b\<close> compares two naive values or two instants and
  raises TypeError on a naive and an aware one.
\<close>

fun dt_gt :: "datetime \<Rightarrow> datetime \<Rightarrow> exn + bool" where
  "dt_gt (Naive a) (Naive b) = Inr (a > b)"
| "dt_gt (Aware a _) (Aware b _) = Inr (a > b)"
| "dt_gt _ _ = Inl (Exn ''TypeError'' ''cannot compare offset-naive and offset-aware datetimes'')"

text \<open>\<^verbatim>\<open>datetime.fromisoformat\<close> is the interpreter's parser: a parameter \<open>fromiso\<close>.\<close>

type_synonym fromisoformat = "string \<Rightarrow> exn + datetime"

text \<open>\<^verbatim>\<open>date_str.replace("Z", "+00:00")\<close>.\<close>

definition replace_Z :: "string \<Rightarrow> string" where
  "replace_Z s = concat (map (\<lambda>c. if c = CHR ''Z'' then ''+00:00'' else [c]) s)"

text \<open>Lines 75 and 76: the commit date of a branch document.\<close>

definition read_date :: "fromisoformat \<Rightarrow> json \<Rightarrow> exn + datetime" where
  "read_date fromiso r_json =
     (case py_item r_json ''commit'' of
        Inl e \<Rightarrow> Inl e
      | Inr c1 \<Rightarrow>
          (case py_item c1 ''commit'' of
             Inl e \<Rightarrow> Inl e
           | Inr c2 \<Rightarrow>
               (case py_item c2 ''author'' of
                  Inl e \<Rightarrow> Inl e
                | Inr a \<Rightarrow>
                    (case py_item a ''date'' of
                       Inl e \<Rightarrow> Inl e
                     | Inr (JStr date_str) \<Rightarrow> fromiso (replace_Z date_str)
                     | Inr _ \<Rightarrow> Inl (Exn ''AttributeError'' ''object has no attribute replace'')))))"

text \<open>Line 80: \<^verbatim>\<open>r_json["commit"]["sha"]\<close>.\<close>

definition read_sha :: "json \<Rightarrow> exn + json" where
  "read_sha r_json =
     (case py_item r_json ''commit'' of Inl e \<Rightarrow> Inl e | Inr c1 \<Rightarrow> py_item c1 ''sha'')"

record selection =
  latest_date :: "datetime option"
  selected_repo :: "string option"
  selected_sha :: json

text \<open>Line 77: \<^verbatim>\<open>latest_date is None or date > latest_date\<close>.\<close>

definition is_newer :: "datetime \<Rightarrow> datetime option \<Rightarrow> exn + bool" where
  "is_newer date latest = (case latest of None \<Rightarrow> Inr True | Some l \<Rightarrow> dt_gt date l)"

definition branch_url :: "config \<Rightarrow> string \<Rightarrow> string \<Rightarrow> string" where
  "branch_url cfg repo app_id = api_base cfg @ ''/repos/'' @ repo @ ''/branches/'' @ app_id"

text \<open>
  The \<^verbatim>\<open>try\<close> block of one iteration, lines 71 to 80: the exception it ends with, if any,
  and the three variables as the block leaves them. The assignments of lines 78 and 79
  are done when line 80 is evaluated.
\<close>

definition probe_try ::
  "config \<Rightarrow> fromisoformat \<Rightarrow> net \<Rightarrow> string \<Rightarrow> string \<Rightarrow> selection \<Rightarrow> world
     \<Rightarrow> exn option \<times> selection \<times> world" where
  "probe_try cfg fromiso nt app_id repo st w =
     (case client_get nt (branch_url cfg repo app_id, Some (headers cfg)) w of
        (Raises e, w1) \<Rightarrow> (Some e, st, w1)
      | (Responds r, w1) \<Rightarrow>
          if status_code r = 200 then
            (case json_body r of
               Inl e \<Rightarrow> (Some e, st, w1)
             | Inr r_json \<Rightarrow>
                 (case py_in ''commit'' r_json of
                    Inl e \<Rightarrow> (Some e, st, w1)
                  | Inr False \<Rightarrow> (None, st, w1)
                  | Inr True \<Rightarrow>
                      (case read_date fromiso r_json of
                         Inl e \<Rightarrow> (Some e, st, w1)
                       | Inr date \<Rightarrow>
                           (case is_newer date (latest_date st) of
                              Inl e \<Rightarrow> (Some e, st, w1)
                            | Inr False \<Rightarrow> (None, st, w1)
                            | Inr True \<Rightarrow>
                                (let st1 = st\<lparr>latest_date := Some date, selected_repo := Some repo\<rparr>
                                 in case read_sha r_json of
                                      Inl e \<Rightarrow> (Some e, st1, w1)
                                    | Inr s \<Rightarrow> (None, st1\<lparr>selected_sha := s\<rparr>, w1))))))
          else (None, st, w1))"

definition msg_check_repo :: string where
  "msg_check_repo =
     [CHR 0xE6, CHR 0xA3, CHR 0x80, CHR 0xE6, CHR 0x9F, CHR 0xA5, CHR 0xE4, CHR 0xBB, CHR 0x93,
      CHR 0xE5, CHR 0xBA, CHR 0x93, CHR 0x20]"

definition msg_failed :: string where
  "msg_failed = [CHR 0x20, CHR 0xE5, CHR 0xA4, CHR 0xB1, CHR 0xE8, CHR 0xB4, CHR 0xA5, CHR 0x3A, CHR 0x20]"

text \<open>One iteration, lines 69 to 82: the \<^verbatim>\<open>except\<close> handler logs a warning and goes on.\<close>

definition probe ::
  "config \<Rightarrow> fromisoformat \<Rightarrow> net \<Rightarrow> string \<Rightarrow> string \<Rightarrow> selection \<Rightarrow> world \<Rightarrow> selection \<times> world" where
  "probe cfg fromiso nt app_id repo st w =
     (case probe_try cfg fromiso nt app_id repo st w of
        (Some e, st1, w1) \<Rightarrow>
          (st1, log_msg Warning [Lit (msg_check_repo @ repo @ msg_failed @ exn_str e)] w1)
      | (None, st1, w1) \<Rightarrow> (st1, w1))"

fun probe_all ::
  "config \<Rightarrow> fromisoformat \<Rightarrow> net \<Rightarrow> string \<Rightarrow> string list \<Rightarrow> selection \<Rightarrow> world \<Rightarrow> selection \<times> world" where
  "probe_all cfg fromiso nt app_id [] st w = (st, w)"
| "probe_all cfg fromiso nt app_id (repo # repos) st w =
     (case probe cfg fromiso nt app_id repo st w of
        (st1, w1) \<Rightarrow> probe_all cfg fromiso nt app_id repos st1 w1)"

record RepoInfo =
  name :: string
  last_update :: "datetime option"
  sha :: json

text \<open>Lines 84 to 88: \<^verbatim>\<open>if selected_repo\<close> holds for a string that is not empty.\<close>

definition get_latest_repo_info ::
  "config \<Rightarrow> fromisoformat \<Rightarrow> net \<Rightarrow> string list \<Rightarrow> string \<Rightarrow> world \<Rightarrow> RepoInfo option \<times> world" where
  "get_latest_repo_info cfg fromiso nt repos app_id w =
     (case probe_all cfg fromiso nt app_id repos
             \<lparr>latest_date = None, selected_repo = None, selected_sha = JNull\<rparr> w of
        (st, w1) \<Rightarrow>
          (case selected_repo st of
             None \<Rightarrow> (None, w1)
           | Some r \<Rightarrow>
               if r \<noteq> [] then
                 (Some \<lparr>name = r, last_update = latest_date st, sha = selected_sha st\<rparr>, w1)
               else (None, w1)))"

section \<open>AutoSelectOnekeyApp.handle_depot_files\<close>

text \<open>
  \<^verbatim>\<open>parse_manifest_filename\<close> and \<^verbatim>\<open>parse_key_file\<close> (\<^verbatim>\<open>src/utils/steam.py\<close>) are not part
  of the sources: the walker takes them as parameters \<open>pmf\<close> and \<open>pkf\<close>; \<open>'d\<close> is
  \<^verbatim>\<open>DepotInfo\<close>.
\<close>

type_synonym classifier = "string \<Rightarrow> string option \<times> string option"

text \<open>
  Modelled from the spec: the Filename Classifier \<^verbatim>\<open>parse_manifest_filename\<close>, which is
  missing from the sources. The spec gives the format \<^verbatim>\<open><depotId>_<manifestId>.manifest\<close>
  with two numeric-string tokens, and \<^verbatim>\<open>(None, None)\<close> for every other name.
\<close>

definition is_digit :: "char \<Rightarrow> bool" where
  "is_digit c = (48 \<le> (of_char c :: nat) \<and> (of_char c :: nat) \<le> 57)"

definition ends_with :: "string \<Rightarrow> string \<Rightarrow> bool" where
  "ends_with s suf = (length suf \<le> length s \<and> drop (length s - length suf) s = suf)"

definition numeric_token :: "string \<Rightarrow> bool" where
  "numeric_token s = (s \<noteq> [] \<and> list_all is_digit s)"

definition parse_manifest_filename :: classifier where
  "parse_manifest_filename filename =
     (if ends_with filename ''.manifest'' then
        (let stem = take (length filename - 9) filename;
             depot = takeWhile (\<lambda>c. c \<noteq> CHR ''_'') stem;
             rest = dropWhile (\<lambda>c. c \<noteq> CHR ''_'') stem
         in if rest \<noteq> [] \<and> numeric_token depot \<and> numeric_token (tl rest)
            then (Some depot, Some (tl rest)) else (None, None))
      else (None, None))"

text \<open>
  The depot map is a dict: its keys in insertion order.
  \<^verbatim>\<open>depot_map.setdefault(depot_id, []).append(manifest_id)\<close>:
\<close>

type_synonym depot_map = "(string \<times> string list) list"

fun setdefault_append :: "depot_map \<Rightarrow> string \<Rightarrow> string \<Rightarrow> depot_map" where
  "setdefault_append [] d m = [(d, [m])]"
| "setdefault_append ((k, ms) # rest) d m =
     (if k = d then (k, ms @ [m]) # rest else (k, ms) # setdefault_append rest d m)"

text \<open>Lines 111 to 113: both results must be true values, so neither None nor empty.\<close>

definition record_manifest :: "classifier \<Rightarrow> string \<Rightarrow> depot_map \<Rightarrow> depot_map" where
  "record_manifest pmf file_path dm =
     (case pmf file_path of
        (Some depot_id, Some manifest_id) \<Rightarrow>
          if depot_id \<noteq> [] \<and> manifest_id \<noteq> [] then setdefault_append dm depot_id manifest_id
          else dm
      | _ \<Rightarrow> dm)"

text \<open>
  What the interpreter and the operating system decide, beyond the code: the \<^verbatim>\<open>repr\<close> of
  a list or a dict; \<^verbatim>\<open>int\<close> and \<^verbatim>\<open>str.lower\<close> on strings with characters beyond ASCII
  (a string is its UTF-8 bytes here); \<^verbatim>\<open>sys.get_int_max_str_digits()\<close>, 0 for no limit;
  the paths whose \<^verbatim>\<open>stat\<close> fails with an error that \<^verbatim>\<open>Path.exists\<close> lets through (a name
  that is too long); the paths that are directories; and whether the \<open>n\<close>-th write of the
  process is refused (its directory is missing, the name is invalid, the disk is full).
\<close>

record platform =
  repr :: "json \<Rightarrow> string"
  unicode_int :: "string \<Rightarrow> int option"
  unicode_lower :: "string \<Rightarrow> string"
  max_str_digits :: nat
  stat_error :: "string \<Rightarrow> exn option"
  is_directory :: "string \<Rightarrow> bool"
  write_error :: "nat \<Rightarrow> string \<Rightarrow> exn option"

definition is_ascii :: "string \<Rightarrow> bool" where
  "is_ascii s = list_all (\<lambda>c. (of_char c :: nat) < 128) s"

text \<open>\<^verbatim>\<open>str.lower\<close>: on an ASCII string the letters A to Z are lowered.\<close>

definition lower_char :: "char \<Rightarrow> char" where
  "lower_char c =
     (if 65 \<le> (of_char c :: nat) \<and> (of_char c :: nat) \<le> 90 then char_of (of_char c + (32::nat)) else c)"

definition lower :: "platform \<Rightarrow> string \<Rightarrow> string" where
  "lower pf s = (if is_ascii s then map lower_char s else unicode_lower pf s)"

text \<open>
  \<^verbatim>\<open>manifest_dir / file_path\<close> and its \<^verbatim>\<open>str\<close>, as \<^verbatim>\<open>pathlib\<close> does it on a POSIX system:
  the path is cut at every \<open>/\<close>, empty components and \<open>.\<close> are dropped, and an absolute
  \<open>file_path\<close> replaces the directory. Components \<open>..\<close> and symbolic links are left to
  the operating system; storage is a map from these path strings to bytes.
\<close>

fun split_slash :: "string \<Rightarrow> string list" where
  "split_slash [] = [[]]"
| "split_slash (c # cs) =
     (if c = CHR ''/'' then [] # split_slash cs
      else (case split_slash cs of [] \<Rightarrow> [[c]] | p # ps \<Rightarrow> (c # p) # ps))"

definition path_parts :: "string \<Rightarrow> string list" where
  "path_parts p = filter (\<lambda>s. s \<noteq> [] \<and> s \<noteq> ''.'') (split_slash p)"

fun join_slash :: "string list \<Rightarrow> string" where
  "join_slash [] = []"
| "join_slash [p] = p"
| "join_slash (p # q # ps) = p @ ''/'' @ join_slash (q # ps)"

definition path_root :: "string \<Rightarrow> string" where
  "path_root p =
     (if take 2 p = ''//'' \<and> take 3 p \<noteq> ''///'' then ''//''
      else if take 1 p = ''/'' then ''/'' else [])"

definition save_path :: "string \<Rightarrow> string" where
  "save_path file_path =
     (if path_root file_path \<noteq> [] then path_root file_path @ join_slash (path_parts file_path)
      else join_slash (''manifests'' # path_parts file_path))"

text \<open>\<^verbatim>\<open>save_path.exists()\<close>, line 103: a file or a directory is there, or \<^verbatim>\<open>stat\<close> raises.\<close>

definition path_exists :: "platform \<Rightarrow> world \<Rightarrow> string \<Rightarrow> exn + bool" where
  "path_exists pf w p =
     (case stat_error pf p of
        Some e \<Rightarrow> Inl e
      | None \<Rightarrow> Inr (p \<in> dom (files w) \<or> is_directory pf p))"

text \<open>
  \<^verbatim>\<open>save_path.write_bytes(content)\<close>, line 107: a refused write raises and leaves storage
  as it is.
\<close>

definition write_bytes :: "platform \<Rightarrow> string \<Rightarrow> string \<Rightarrow> world \<Rightarrow> exn option \<times> world" where
  "write_bytes pf p c w =
     (case write_error pf (length (written w)) p of
        Some e \<Rightarrow> (Some e, w)
      | None \<Rightarrow> (None, w\<lparr>files := (files w)(p \<mapsto> c), written := written w @ [p]\<rparr>))"

text \<open>
  \<^verbatim>\<open>str(x)\<close> of a JSON-derived value, as \<^verbatim>\<open>str.format\<close> applies it. The text of a list or
  a dict is the interpreter's \<^verbatim>\<open>repr\<close>.
\<close>

fun py_str :: "platform \<Rightarrow> json \<Rightarrow> string" where
  "py_str pf JNull = ''None''"
| "py_str pf (JBool b) = (if b then ''True'' else ''False'')"
| "py_str pf (JNum n) = show_int n"
| "py_str pf (JStr s) = s"
| "py_str pf j = repr pf j"

text \<open>One iteration of the loop over the tree, lines 99 to 117.\<close>

definition walk_item ::
  "config \<Rightarrow> platform \<Rightarrow> net \<Rightarrow> classifier \<Rightarrow> (string \<Rightarrow> 'd list) \<Rightarrow> RepoInfo \<Rightarrow> json
     \<Rightarrow> 'd list \<times> depot_map \<Rightarrow> world \<Rightarrow> (exn + 'd list \<times> depot_map) \<times> world" where
  "walk_item cfg pf nt pmf pkf repo_info item acc w =
     (case acc of (depot_list, dm) \<Rightarrow>
      (case py_item item ''path'' of
         Inl e \<Rightarrow> (Inl e, w)
       | Inr (JStr file_path) \<Rightarrow>
           if ends_with file_path ''.manifest'' then
             (case path_exists pf w (save_path file_path) of
                Inl e \<Rightarrow> (Inl e, w)
              | Inr True \<Rightarrow>
                  (Inr (depot_list, record_manifest pmf file_path dm),
                   log_msg Warning [Lit (''Manifest already exists: '' @ save_path file_path)] w)
              | Inr False \<Rightarrow>
                  (case fetch_file cfg nt (name repo_info) (py_str pf (sha repo_info)) file_path w of
                     (Inl e, w1) \<Rightarrow> (Inl e, w1)
                   | (Inr c, w1) \<Rightarrow>
                       (case write_bytes pf (save_path file_path) c w1 of
                          (Some e, w2) \<Rightarrow> (Inl e, w2)
                        | (None, w2) \<Rightarrow>
                            (Inr (depot_list, record_manifest pmf file_path dm),
                             (log_msg Info [Lit (''Manifest downloaded: '' @ file_path)] w2)
                               \<lparr>downloaded_files := insert file_path (downloaded_files w2)\<rparr>))))
           else if is_substring ''key.vdf'' (lower pf file_path) then
             (case fetch_file cfg nt (name repo_info) (py_str pf (sha repo_info)) file_path w of
                (Inl e, w1) \<Rightarrow> (Inl e, w1)
              | (Inr key_content, w1) \<Rightarrow> (Inr (depot_list @ pkf key_content, dm), w1))
           else (Inr (depot_list, dm), w)
       | Inr _ \<Rightarrow> (Inl (Exn ''AttributeError'' ''object has no attribute endswith''), w)))"

text \<open>The loop of line 98; an exception of an iteration ends it.\<close>

fun walk_tree ::
  "config \<Rightarrow> platform \<Rightarrow> net \<Rightarrow> classifier \<Rightarrow> (string \<Rightarrow> 'd list) \<Rightarrow> RepoInfo \<Rightarrow> json list
     \<Rightarrow> 'd list \<times> depot_map \<Rightarrow> world \<Rightarrow> (exn + 'd list \<times> depot_map) \<times> world" where
  "walk_tree cfg pf nt pmf pkf repo_info [] acc w = (Inr acc, w)"
| "walk_tree cfg pf nt pmf pkf repo_info (item # items) acc w =
     (case walk_item cfg pf nt pmf pkf repo_info item acc w of
        (Inl e, w1) \<Rightarrow> (Inl e, w1)
      | (Inr acc1, w1) \<Rightarrow> walk_tree cfg pf nt pmf pkf repo_info items acc1 w1)"

text \<open>
  What a \<^verbatim>\<open>for\<close> loop iterates over: the elements of a list, the keys of a dict, the
  characters of a string; anything else raises.
\<close>

fun py_iter :: "json \<Rightarrow> exn + json list" where
  "py_iter (JArr xs) = Inr xs"
| "py_iter (JObj kvs) = Inr (map (\<lambda>kv. JStr (fst kv)) kvs)"
| "py_iter (JStr s) = Inr (map (\<lambda>c. JStr [c]) s)"
| "py_iter _ = Inl (Exn ''TypeError'' ''object is not iterable'')"

text \<open>
  \<^verbatim>\<open>int(x)\<close> on a string. For ASCII: surrounding white space (tab, line feed, vertical
  tab, form feed, carriage return, space), an optional sign, decimal digits, single
  underscores between digits, and no more digits than the interpreter's limit, which
  applies above 640 digits. \<open>None\<close> is ValueError.
\<close>

definition is_space :: "char \<Rightarrow> bool" where
  "is_space c = ((of_char c :: nat) \<in> {9, 10, 11, 12, 13, 32})"

definition strip :: "string \<Rightarrow> string" where
  "strip s = rev (dropWhile is_space (rev (dropWhile is_space s)))"

fun digits_value :: "string \<Rightarrow> nat \<Rightarrow> bool \<Rightarrow> nat option" where
  "digits_value [] acc after_digit = (if after_digit then Some acc else None)"
| "digits_value (c # cs) acc after_digit =
     (if is_digit c then digits_value cs (10 * acc + (of_char c - 48)) True
      else if c = CHR ''_'' \<and> after_digit then digits_value cs acc False
      else None)"

definition ascii_int :: "nat \<Rightarrow> string \<Rightarrow> int option" where
  "ascii_int limit s =
     (if limit \<noteq> 0 \<and> 640 < length (filter is_digit s) \<and> limit < length (filter is_digit s) then None
      else
        (case strip s of
           [] \<Rightarrow> None
         | c # r \<Rightarrow>
             if c = CHR ''-'' then map_option (\<lambda>n. - int n) (digits_value r 0 False)
             else if c = CHR ''+'' then map_option int (digits_value r 0 False)
             else map_option int (digits_value (c # r) 0 False)))"

definition py_int :: "platform \<Rightarrow> string \<Rightarrow> int option" where
  "py_int pf s = (if is_ascii s then ascii_int (max_str_digits pf) s else unicode_int pf s)"

text \<open>
  \<^verbatim>\<open>xs.sort(key=lambda x: int(x), reverse=True)\<close>: the keys are computed first, any
  failure raises; the sort is stable, also under \<^verbatim>\<open>reverse\<close>.
\<close>

fun keyed :: "platform \<Rightarrow> string list \<Rightarrow> (int \<times> string) list option" where
  "keyed pf [] = Some []"
| "keyed pf (x # xs) =
     (case py_int pf x of
        None \<Rightarrow> None
      | Some k \<Rightarrow> (case keyed pf xs of None \<Rightarrow> None | Some ps \<Rightarrow> Some ((k, x) # ps)))"

definition sort_int_reverse :: "platform \<Rightarrow> string list \<Rightarrow> exn + string list" where
  "sort_int_reverse pf xs =
     (case keyed pf xs of
        None \<Rightarrow> Inl (Exn ''ValueError'' ''invalid literal for int() with base 10'')
      | Some ps \<Rightarrow> Inr (map snd (sort_key (\<lambda>p. - fst p) ps)))"

text \<open>Lines 119 and 120.\<close>

fun sort_depots :: "platform \<Rightarrow> depot_map \<Rightarrow> exn + depot_map" where
  "sort_depots pf [] = Inr []"
| "sort_depots pf ((depot_id, ms) # rest) =
     (case sort_int_reverse pf ms of
        Inl e \<Rightarrow> Inl e
      | Inr ms1 \<Rightarrow>
          (case sort_depots pf rest of Inl e \<Rightarrow> Inl e | Inr rest1 \<Rightarrow> Inr ((depot_id, ms1) # rest1)))"

text \<open>Line 94: \<^verbatim>\<open>branch_res.json()["commit"]["commit"]["tree"]["url"]\<close>.\<close>

definition read_tree_url :: "response \<Rightarrow> exn + json" where
  "read_tree_url branch_res =
     (case json_body branch_res of
        Inl e \<Rightarrow> Inl e
      | Inr j \<Rightarrow>
          (case py_item j ''commit'' of
             Inl e \<Rightarrow> Inl e
           | Inr c1 \<Rightarrow>
               (case py_item c1 ''commit'' of
                  Inl e \<Rightarrow> Inl e
                | Inr c2 \<Rightarrow>
                    (case py_item c2 ''tree'' of Inl e \<Rightarrow> Inl e | Inr t \<Rightarrow> py_item t ''url''))))"

text \<open>Lines 98: \<^verbatim>\<open>tree_res.json()["tree"]\<close> and what the loop iterates over.\<close>

definition read_tree :: "response \<Rightarrow> exn + json list" where
  "read_tree tree_res =
     (case json_body tree_res of
        Inl e \<Rightarrow> Inl e
      | Inr j \<Rightarrow> (case py_item j ''tree'' of Inl e \<Rightarrow> Inl e | Inr t \<Rightarrow> py_iter t))"

text \<open>
  The method, lines 76 to 122. The directory \<^verbatim>\<open>manifests\<close> is created first; the world
  holds files only, so that step leaves it as it is. A tree URL that is not a
  string is refused by the client before anything is sent.
\<close>

definition handle_depot_files ::
  "config \<Rightarrow> platform \<Rightarrow> fromisoformat \<Rightarrow> net \<Rightarrow> classifier \<Rightarrow> (string \<Rightarrow> 'd list)
     \<Rightarrow> string \<Rightarrow> world \<Rightarrow> (exn + 'd list \<times> depot_map) \<times> world" where
  "handle_depot_files cfg pf fromiso nt pmf pkf app_id w =
     (case get_latest_repo_info cfg fromiso nt (repo_list cfg) app_id w of
        (None, w1) \<Rightarrow> (Inr ([], []), w1)
      | (Some repo_info, w1) \<Rightarrow>
          (let w2 = log_msg Info
                      [Lit (''Selected manifest repository: https://github.com/'' @ name repo_info)] w1;
               w3 = log_msg Info [Lit ''Last update: '', FmtDate (last_update repo_info)] w2
           in case client_get nt
                     (''https://api.github.com/repos/'' @ name repo_info @ ''/branches/'' @ app_id,
                      Some (github_headers cfg)) w3 of
                (Raises e, w4) \<Rightarrow> (Inl e, w4)
              | (Responds branch_res, w4) \<Rightarrow>
                  (case status_error branch_res of
                     Some e \<Rightarrow> (Inl e, w4)
                   | None \<Rightarrow>
                       (case read_tree_url branch_res of
                          Inl e \<Rightarrow> (Inl e, w4)
                        | Inr (JStr tree_url) \<Rightarrow>
                            (case client_get nt (tree_url, None) w4 of
                               (Raises e, w5) \<Rightarrow> (Inl e, w5)
                             | (Responds tree_res, w5) \<Rightarrow>
                                 (case status_error tree_res of
                                    Some e \<Rightarrow> (Inl e, w5)
                                  | None \<Rightarrow>
                                      (case read_tree tree_res of
                                         Inl e \<Rightarrow> (Inl e, w5)
                                       | Inr items \<Rightarrow>
                                           (case walk_tree cfg pf nt pmf pkf repo_info items ([], []) w5 of
                                              (Inl e, w6) \<Rightarrow> (Inl e, w6)
                                            | (Inr (depot_list, dm), w6) \<Rightarrow>
                                                (case sort_depots pf dm of
                                                   Inl e \<Rightarrow> (Inl e, w6)
                                                 | Inr dm1 \<Rightarrow> (Inr (depot_list, dm1), w6))))))
                        | Inr _ \<Rightarrow> (Inl (Exn ''TypeError'' ''invalid type for url''), w4)))))"

section \<open>The caller's reading of the quota report\<close>





section \<open>What a candidate repository answered\<close>

text \<open>
  The part of an iteration of \<open>get_latest_repo_info\<close> that depends on the answer alone
  (lines 71 to 76): no match or no commit entry (\<open>Silent\<close>), an exception (\<open>Failed\<close>), or a
  commit date together with what reading the sha gives (\<open>Dated\<close>).
\<close>

datatype view = Silent | Failed exn | Dated datetime "exn + json"

definition view_of :: "fromisoformat \<Rightarrow> outcome \<Rightarrow> view" where
  "view_of fromiso out =
     (case out of
        Raises e \<Rightarrow> Failed e
      | Responds r \<Rightarrow>
          if status_code r = 200 then
            (case json_body r of
               Inl e \<Rightarrow> Failed e
             | Inr r_json \<Rightarrow>
                 (case py_in ''commit'' r_json of
                    Inl e \<Rightarrow> Failed e
                  | Inr False \<Rightarrow> Silent
                  | Inr True \<Rightarrow>
                      (case read_date fromiso r_json of
                         Inl e \<Rightarrow> Failed e
                       | Inr date \<Rightarrow> Dated date (read_sha r_json))))
          else Silent)"

fun is_dated :: "view \<Rightarrow> bool" where
  "is_dated (Dated d s) = True"
| "is_dated _ = False"

definition branch_request :: "config \<Rightarrow> string \<Rightarrow> string \<Rightarrow> request" where
  "branch_request cfg app_id repo = (branch_url cfg repo app_id, Some (headers cfg))"

text \<open>The answers to a list of candidates queried one after the other from request \<open>n\<close> on.\<close>

fun probe_views :: "config \<Rightarrow> fromisoformat \<Rightarrow> net \<Rightarrow> string \<Rightarrow> nat \<Rightarrow> string list \<Rightarrow> (string \<times> view) list" where
  "probe_views cfg fromiso nt app_id n [] = []"
| "probe_views cfg fromiso nt app_id n (repo # repos) =
     (repo, view_of fromiso (nt n (branch_request cfg app_id repo)))
       # probe_views cfg fromiso nt app_id (Suc n) repos"

text \<open>The effect of one answer on the three variables, and of a list of answers.\<close>

definition select_step :: "selection \<Rightarrow> string \<times> view \<Rightarrow> selection" where
  "select_step st rv =
     (case snd rv of
        Dated date s \<Rightarrow>
          (case is_newer date (latest_date st) of
             Inr True \<Rightarrow>
               (case s of
                  Inl e \<Rightarrow> st\<lparr>latest_date := Some date, selected_repo := Some (fst rv)\<rparr>
                | Inr h \<Rightarrow> \<lparr>latest_date = Some date, selected_repo = Some (fst rv), selected_sha = h\<rparr>)
           | _ \<Rightarrow> st)
      | _ \<Rightarrow> st)"

fun instant :: "datetime \<Rightarrow> int" where
  "instant (Naive t) = t"
| "instant (Aware t off) = t"

fun is_aware :: "datetime \<Rightarrow> bool" where
  "is_aware (Aware t off) = True"
| "is_aware (Naive t) = False"

fun aware_view :: "view \<Rightarrow> bool" where
  "aware_view (Dated d s) = is_aware d"
| "aware_view _ = True"

fun has_sha :: "view \<Rightarrow> bool" where
  "has_sha (Dated d (Inl e)) = False"
| "has_sha _ = True"

definition no_selection :: selection where
  "no_selection = \<lparr>latest_date = None, selected_repo = None, selected_sha = JNull\<rparr>"

text \<open>
  The selection the spec asks for, said of a list of answers and a result: nothing when no
  candidate delivered a date; otherwise the candidate at a position whose date is later
  than every date before it and not earlier than any date after it, with that date, and
  with its sha when the answer holds one.
\<close>

definition selects_first_max :: "(string \<times> view) list \<Rightarrow> RepoInfo option \<Rightarrow> bool" where
  "selects_first_max vs res =
     (if \<forall>x \<in> set vs. \<not> is_dated (snd x) then res = None
      else (\<exists>pre r d s post info.
              vs = pre @ (r, Dated d s) # post \<and>
              (\<forall>x \<in> set pre. \<forall>d1 s1. snd x = Dated d1 s1 \<longrightarrow> instant d1 < instant d) \<and>
              (\<forall>x \<in> set post. \<forall>d1 s1. snd x = Dated d1 s1 \<longrightarrow> instant d1 \<le> instant d) \<and>
              res = Some info \<and> name info = r \<and> last_update info = Some d \<and>
              (\<forall>h. s = Inr h \<longrightarrow> sha info = h)))"

text \<open>A remote side whose answer to a request does not change over time.\<close>

definition steady :: "(request \<Rightarrow> outcome) \<Rightarrow> net" where
  "steady resp = (\<lambda>n. resp)"

definition answer :: "config \<Rightarrow> fromisoformat \<Rightarrow> (request \<Rightarrow> outcome) \<Rightarrow> string \<Rightarrow> string \<Rightarrow> view" where
  "answer cfg fromiso resp app_id repo = view_of fromiso (resp (branch_request cfg app_id repo))"

definition distinct_dates :: "(string \<Rightarrow> view) \<Rightarrow> string list \<Rightarrow> bool" where
  "distinct_dates ans repos =
     (\<forall>r1 \<in> set repos. \<forall>r2 \<in> set repos. \<forall>d1 s1 d2 s2.
        r1 \<noteq> r2 \<and> ans r1 = Dated d1 s1 \<and> ans r2 = Dated d2 s2 \<longrightarrow> instant d1 \<noteq> instant d2)"

text \<open>The state of the three variables after a list of answers that holds a date.\<close>

definition first_max :: "(string \<times> view) list \<Rightarrow> selection \<Rightarrow> bool" where
  "first_max vs st \<longleftrightarrow>
     (\<exists>pre r d sh post. vs = pre @ (r, Dated d sh) # post \<and>
        (\<forall>x \<in> set pre. \<forall>d' sh'. snd x = Dated d' sh' \<longrightarrow> instant d' < instant d) \<and>
        (\<forall>x \<in> set post. \<forall>d' sh'. snd x = Dated d' sh' \<longrightarrow> instant d' \<le> instant d) \<and>
        latest_date st = Some d \<and> selected_repo st = Some r \<and>
        (\<forall>h. sh = Inr h \<longrightarrow> selected_sha st = h))"

section \<open>Example inputs\<close>

definition rate_request :: "config \<Rightarrow> request" where
  "rate_request cfg = (api_base cfg @ ''/rate_limit'', Some (headers cfg))"

definition example_config :: config where
  "example_config =
     \<lparr>api_base = ''https://api.github.com'', headers = [], github_headers = [], is_cn = False,
      cn_cdn_list = [[Text ''https://cdn.example/'', Repo, Text ''@'', Sha, Text ''/'', Path]],
      global_cdn_list =
        [[Text ''https://raw.githubusercontent.com/'', Repo, Text ''/'', Sha, Text ''/'', Path],
         [Text ''https://mirror.example/'', Repo, Text ''/'', Sha, Text ''/'', Path]],
      repo_list = [''first/repo'', ''second/repo'']\<rparr>"

definition fresh_world :: world where
  "fresh_world = \<lparr>sent = [], logged = [], files = Map.empty, written = [], downloaded_files = {}\<rparr>"

definition ok_json :: "json \<Rightarrow> response" where
  "ok_json j = \<lparr>status_code = 200, json_body = Inr j, content = [], status_error = None\<rparr>"

definition not_found :: response where
  "not_found =
     \<lparr>status_code = 404, json_body = Inr (JObj [(''message'', JStr ''Not Found'')]), content = [],
      status_error = Some (Exn ''HTTPStatusError'' ''404 Not Found'')\<rparr>"

definition rate_body :: json where
  "rate_body =
     JObj [(''rate'', JObj [(''remaining'', JNum 10), (''limit'', JNum 60),
                            (''reset'', JNum 1700000000), (''used'', JNum 50)])]"

definition utc_2023 :: localtime where
  "utc_2023 = (\<lambda>_. Inr \<lparr>tm_year = 2023, tm_mon = 11, tm_mday = 14, tm_hour = 22, tm_min = 13, tm_sec = 20\<rparr>)"


text \<open>Line 99 negated, and the \<^verbatim>\<open>except\<close> of line 101: an attempt that does not return.\<close>

definition is_failure :: "outcome \<Rightarrow> bool" where
  "is_failure out = (case out of Raises e \<Rightarrow> True | Responds r \<Rightarrow> status_code r \<noteq> 200)"

definition cdn_requests :: "config \<Rightarrow> template list \<Rightarrow> string \<Rightarrow> string \<Rightarrow> string \<Rightarrow> request list" where
  "cdn_requests cfg cdn_list repo commit path =
     map (\<lambda>t. (format_template t repo commit path, Some (headers cfg))) cdn_list"

text \<open>
  A small remote side: two candidate repositories with a branch \<open>730\<close>, the second one
  with the later commit, its tree, and a CDN that serves the files of that commit. Every
  other URL answers 404.
\<close>

definition branch_doc :: "string \<Rightarrow> string \<Rightarrow> string \<Rightarrow> json" where
  "branch_doc date commit tree_url =
     JObj [(''name'', JStr ''730''),
           (''commit'',
              JObj [(''sha'', JStr commit),
                    (''commit'',
                       JObj [(''author'', JObj [(''name'', JStr ''bot''), (''date'', JStr date)]),
                             (''tree'', JObj [(''url'', JStr tree_url)])])])]"

definition tree_doc :: "string list \<Rightarrow> json" where
  "tree_doc paths = JObj [(''tree'', JArr (map (\<lambda>p. JObj [(''path'', JStr p), (''type'', JStr ''blob'')]) paths))]"

definition ok_bytes :: "string \<Rightarrow> response" where
  "ok_bytes c =
     \<lparr>status_code = 200, json_body = Inl (Exn ''JSONDecodeError'' ''Expecting value''), content = c,
      status_error = None\<rparr>"

definition example_paths :: "string list" where
  "example_paths =
     [''1000_50.manifest'', ''1000_75.manifest'', ''Key.vdf'', ''1000_60.manifest'',
      ''readme.manifest'', ''README.md'']"

definition remote_table :: "(string \<times> response) list" where
  "remote_table =
     [(''https://api.github.com/repos/first/repo/branches/730'',
         ok_json (branch_doc ''2024-01-01T00:00:00Z'' ''aaa111''
                    ''https://api.github.com/repos/first/repo/git/trees/t1'')),
      (''https://api.github.com/repos/second/repo/branches/730'',
         ok_json (branch_doc ''2024-03-01T00:00:00Z'' ''bbb222''
                    ''https://api.github.com/repos/second/repo/git/trees/t2'')),
      (''https://api.github.com/repos/second/repo/git/trees/t2'', ok_json (tree_doc example_paths)),
      (''https://raw.githubusercontent.com/second/repo/bbb222/1000_50.manifest'', ok_bytes ''fifty''),
      (''https://raw.githubusercontent.com/second/repo/bbb222/1000_75.manifest'', ok_bytes ''seventy-five''),
      (''https://mirror.example/second/repo/bbb222/1000_60.manifest'', ok_bytes ''sixty''),
      (''https://raw.githubusercontent.com/second/repo/bbb222/readme.manifest'', ok_bytes ''read me''),
      (''https://raw.githubusercontent.com/second/repo/bbb222/Key.vdf'', ok_bytes ''keys'')]"

definition example_remote :: "request \<Rightarrow> outcome" where
  "example_remote rq = (case map_of remote_table (fst rq) of None \<Rightarrow> Responds not_found | Some r \<Rightarrow> Responds r)"

text \<open>The values of \<^verbatim>\<open>fromisoformat\<close> on the two dates of the example.\<close>

definition example_fromiso :: fromisoformat where
  "example_fromiso s =
     (if s = ''2024-01-01T00:00:00+00:00'' then Inr (Aware 1704067200 0)
      else if s = ''2024-03-01T00:00:00+00:00'' then Inr (Aware 1709251200 0)
      else Inl (Exn ''ValueError'' (''Invalid isoformat string: '' @ s)))"

definition example_pkf :: "string \<Rightarrow> (string \<times> string) list" where
  "example_pkf key_content = (if key_content = [] then [] else [(''1000'', key_content)])"

text \<open>
  Two more remote sides: on the first, the query of \<open>first/repo\<close> ends in a transport
  error; on the second, the branch document of \<open>second/repo\<close> has the later date and no
  \<open>sha\<close> entry.
\<close>

definition flaky_remote :: "request \<Rightarrow> outcome" where
  "flaky_remote rq =
     (if fst rq = ''https://api.github.com/repos/first/repo/branches/730''
      then Raises (Exn ''ConnectTimeout'' ''timed out'') else example_remote rq)"

definition sha_less_doc :: "string \<Rightarrow> json" where
  "sha_less_doc date =
     JObj [(''name'', JStr ''730''),
           (''commit'', JObj [(''commit'', JObj [(''author'', JObj [(''date'', JStr date)])])])]"

definition sha_less_remote :: "request \<Rightarrow> outcome" where
  "sha_less_remote rq =
     (if fst rq = ''https://api.github.com/repos/second/repo/branches/730''
      then Responds (ok_json (sha_less_doc ''2024-03-01T00:00:00Z'')) else example_remote rq)"

text \<open>The selected repository of the example, and a world that already holds one manifest.\<close>

definition second_info :: RepoInfo where
  "second_info = \<lparr>name = ''second/repo'', last_update = Some (Aware 1709251200 0), sha = JStr ''bbb222''\<rparr>"

definition stored_world :: world where
  "stored_world =
     \<lparr>sent = [], logged = [], files = [''manifests/1000_50.manifest'' \<mapsto> ''kept''],
      written = [], downloaded_files = {}\<rparr>"

definition path_item :: "string \<Rightarrow> json" where
  "path_item p = JObj [(''path'', JStr p), (''type'', JStr ''blob'')]"

text \<open>
  A platform on which the directory \<^verbatim>\<open>manifests\<close> exists and nothing else gets in the way:
  a write is refused exactly when it is not directly into that directory.
\<close>

definition parent_dir :: "string \<Rightarrow> string" where
  "parent_dir p = join_slash (butlast (split_slash p))"

definition bare_platform :: platform where
  "bare_platform =
     \<lparr>repr = (\<lambda>j. []), unicode_int = (\<lambda>s. None), unicode_lower = (\<lambda>s. s), max_str_digits = 4300,
      stat_error = (\<lambda>p. None), is_directory = (\<lambda>p. p = ''manifests''),
      write_error = (\<lambda>n p. if parent_dir p = ''manifests'' then None
                             else Some (Exn ''FileNotFoundError'' (''No such file or directory: '' @ p)))\<rparr>"

text \<open>
  The order of a manifest-id list by the integer value of its members: every member must
  have one. \<open>descending\<close> allows equal neighbours, \<open>strictly_descending\<close> does not.
\<close>

definition descending :: "platform \<Rightarrow> string list \<Rightarrow> bool" where
  "descending pf ms = (case keyed pf ms of None \<Rightarrow> False | Some ps \<Rightarrow> sorted_wrt (\<lambda>a b. a \<ge> b) (map fst ps))"

definition strictly_descending :: "platform \<Rightarrow> string list \<Rightarrow> bool" where
  "strictly_descending pf ms = (case keyed pf ms of None \<Rightarrow> False | Some ps \<Rightarrow> sorted_wrt (\<lambda>a b. a > b) (map fst ps))"

text \<open>A remote side whose tree lists two manifests of one depot with the same integer value.\<close>

definition twin_table :: "(string \<times> response) list" where
  "twin_table =
     [(''https://api.github.com/repos/second/repo/branches/730'',
         ok_json (branch_doc ''2024-03-01T00:00:00Z'' ''bbb222''
                    ''https://api.github.com/repos/second/repo/git/trees/t2'')),
      (''https://api.github.com/repos/second/repo/git/trees/t2'',
         ok_json (tree_doc [''1000_50.manifest'', ''1000_050.manifest''])),
      (''https://raw.githubusercontent.com/second/repo/bbb222/1000_50.manifest'', ok_bytes ''fifty''),
      (''https://raw.githubusercontent.com/second/repo/bbb222/1000_050.manifest'', ok_bytes ''fifty again'')]"

definition twin_remote :: "request \<Rightarrow> outcome" where
  "twin_remote rq = (case map_of twin_table (fst rq) of None \<Rightarrow> Responds not_found | Some r \<Rightarrow> Responds r)"

text \<open>
  The world in which the loop over the tree starts, given the world \<open>wa\<close> that the
  selection left: lines 87 to 95 log two lines and send the branch query and the tree
  query.
\<close>

definition before_walk :: "config \<Rightarrow> RepoInfo \<Rightarrow> string \<Rightarrow> string \<Rightarrow> world \<Rightarrow> world" where
  "before_walk cfg repo_info app_id tree_url wa =
     (let w2 = log_msg Info
                 [Lit (''Selected manifest repository: https://github.com/'' @ name repo_info)] wa;
          w3 = log_msg Info [Lit ''Last update: '', FmtDate (last_update repo_info)] w2;
          w4 = w3\<lparr>sent := sent w3 @
                  [(''https://api.github.com/repos/'' @ name repo_info @ ''/branches/'' @ app_id,
                    Some (github_headers cfg))]\<rparr>
      in w4\<lparr>sent := sent w4 @ [(tree_url, None)]\<rparr>)"

text \<open>The paths of the tree entries that the walker treats as manifests.\<close>

definition manifest_path :: "json \<Rightarrow> string \<Rightarrow> bool" where
  "manifest_path item p = (py_item item ''path'' = Inr (JStr p) \<and> ends_with p ''.manifest'')"

text \<open>A remote side that also serves a manifest below a directory of the tree.\<close>

definition nested_remote :: "request \<Rightarrow> outcome" where
  "nested_remote rq =
     (if fst rq = ''https://raw.githubusercontent.com/second/repo/bbb222/sub/1000_50.manifest''
      then Responds (ok_bytes ''fifty'') else example_remote rq)"

section \<open>Properties of check_rate_limit\<close>

lemma strftime_nonempty: "strftime t \<noteq> []"
  by (simp add: strftime_def)

lemma check_rate_limit_total: "\<exists>d w1. check_rate_limit cfg lt nt w = (Inr d, w1)"
  by (simp add: check_rate_limit_def Let_def split: prod.splits sum.splits)

lemma check_rate_limit_shape:
  "fst (check_rate_limit cfg lt nt w) = Inr d \<Longrightarrow>
   (\<exists>msg. d = [(''error'', PS msg)] \<and> msg \<noteq> []) \<or>
   map fst d = [''limit'', ''remaining'', ''reset'', ''used'', ''reset_formatted'', ''reset_relative'']"
  by (auto simp add: check_rate_limit_def check_rate_limit_try_def client_get_def Let_def
        split: prod.splits sum.splits outcome.splits if_splits)

lemma check_rate_limit_transport:
  "nt (length (sent w)) (rate_request cfg) = Raises e \<Longrightarrow>
   fst (check_rate_limit cfg lt nt w) = Inr [(''error'', PS (''Rate limit check failed: '' @ exn_str e))]"
  by (simp add: check_rate_limit_def check_rate_limit_try_def client_get_def rate_request_def Let_def)

lemma check_rate_limit_status:
  "nt (length (sent w)) (rate_request cfg) = Responds r \<Longrightarrow> status_code r \<noteq> 200 \<Longrightarrow>
   fst (check_rate_limit cfg lt nt w) =
     Inr [(''error'', PS (''GitHub rate limit check failed with status '' @ show_int (status_code r)))]"
  by (simp add: check_rate_limit_def check_rate_limit_try_def client_get_def rate_request_def Let_def)

lemma check_rate_limit_ok:
  "nt (length (sent w)) (rate_request cfg) = Responds r \<Longrightarrow> status_code r = 200 \<Longrightarrow>
   json_body r = Inr (JObj kvs) \<Longrightarrow>
   fs = (case map_of kvs ''rate'' of None \<Rightarrow> [] | Some (JObj l) \<Rightarrow> l | Some _ \<Rightarrow> []) \<Longrightarrow>
   (map_of kvs ''rate'' = None \<or> (\<exists>l. map_of kvs ''rate'' = Some (JObj l))) \<Longrightarrow>
   time_localtime lt (case map_of fs ''reset'' of None \<Rightarrow> JNum 0 | Some v \<Rightarrow> v) = Inr t \<Longrightarrow>
   fst (check_rate_limit cfg lt nt w) =
     Inr [(''limit'', PJ (case map_of fs ''limit'' of None \<Rightarrow> JNum 60 | Some v \<Rightarrow> v)),
          (''remaining'', PJ (case map_of fs ''remaining'' of None \<Rightarrow> JNum 0 | Some v \<Rightarrow> v)),
          (''reset'', PJ (case map_of fs ''reset'' of None \<Rightarrow> JNum 0 | Some v \<Rightarrow> v)),
          (''used'', PJ (case map_of fs ''used'' of None \<Rightarrow> JNum 0 | Some v \<Rightarrow> v)),
          (''reset_formatted'', PS (strftime t)),
          (''reset_relative'',
             PF [Lit ''<t:'', Fmt (case map_of fs ''reset'' of None \<Rightarrow> JNum 0 | Some v \<Rightarrow> v), Lit '':R>''])]"
  by (auto simp add: check_rate_limit_def check_rate_limit_try_def client_get_def rate_request_def Let_def)

text \<open>
  Claim C7. \<open>check_rate_limit\<close> never raises: whatever the remote side, the clock and
  the world are, it returns a dict. That dict is either the error marker, one key
  \<open>error\<close> with a message that is not empty, or the six-key status. A transport error and
  a status other than 200 give the error marker with the message that names the failure.
  A 200 response with the body
  \<^verbatim>\<open>{"rate": {"remaining": 10, "limit": 60, "reset": 1700000000, "used": 50}}\<close>, on a
  platform whose \<^verbatim>\<open>localtime\<close> accepts that instant, gives a status with remaining 10,
  limit 60, used 50 and a formatted reset string that is not empty.
\<close>

theorem check_rate_limit_never_raises:
  "(\<exists>d w1. check_rate_limit cfg lt nt w = (Inr d, w1)) \<and>
   (\<forall>d. fst (check_rate_limit cfg lt nt w) = Inr d \<longrightarrow>
      (\<exists>msg. d = [(''error'', PS msg)] \<and> msg \<noteq> []) \<or>
      map fst d = [''limit'', ''remaining'', ''reset'', ''used'', ''reset_formatted'', ''reset_relative'']) \<and>
   (\<forall>e. nt (length (sent w)) (rate_request cfg) = Raises e \<longrightarrow>
      fst (check_rate_limit cfg lt nt w) =
        Inr [(''error'', PS (''Rate limit check failed: '' @ exn_str e))]) \<and>
   (\<forall>r. nt (length (sent w)) (rate_request cfg) = Responds r \<and> status_code r \<noteq> 200 \<longrightarrow>
      fst (check_rate_limit cfg lt nt w) =
        Inr [(''error'', PS (''GitHub rate limit check failed with status '' @ show_int (status_code r)))]) \<and>
   (\<forall>r t. nt (length (sent w)) (rate_request cfg) = Responds r \<and> status_code r = 200 \<and>
      json_body r = Inr rate_body \<and> lt (Some 1700000000) = Inr t \<longrightarrow>
      (\<exists>d s. fst (check_rate_limit cfg lt nt w) = Inr d \<and>
         map_of d ''remaining'' = Some (PJ (JNum 10)) \<and>
         map_of d ''limit'' = Some (PJ (JNum 60)) \<and>
         map_of d ''used'' = Some (PJ (JNum 50)) \<and>
         map_of d ''reset_formatted'' = Some (PS s) \<and> s \<noteq> [] \<and>
         ''error'' \<notin> fst ` set d))"
proof (intro conjI allI impI)
  show "\<exists>d w1. check_rate_limit cfg lt nt w = (Inr d, w1)"
    by (rule check_rate_limit_total)
next
  fix d assume "fst (check_rate_limit cfg lt nt w) = Inr d"
  then show "(\<exists>msg. d = [(''error'', PS msg)] \<and> msg \<noteq> []) \<or>
      map fst d = [''limit'', ''remaining'', ''reset'', ''used'', ''reset_formatted'', ''reset_relative'']"
    by (rule check_rate_limit_shape)
next
  fix e assume "nt (length (sent w)) (rate_request cfg) = Raises e"
  then show "fst (check_rate_limit cfg lt nt w) =
        Inr [(''error'', PS (''Rate limit check failed: '' @ exn_str e))]"
    by (rule check_rate_limit_transport)
next
  fix r assume "nt (length (sent w)) (rate_request cfg) = Responds r \<and> status_code r \<noteq> 200"
  then show "fst (check_rate_limit cfg lt nt w) =
        Inr [(''error'', PS (''GitHub rate limit check failed with status '' @ show_int (status_code r)))]"
    by (simp add: check_rate_limit_status)
next
  fix r t
  assume h: "nt (length (sent w)) (rate_request cfg) = Responds r \<and> status_code r = 200 \<and>
      json_body r = Inr rate_body \<and> lt (Some 1700000000) = Inr t"
  have "fst (check_rate_limit cfg lt nt w) =
     Inr [(''limit'', PJ (JNum 60)), (''remaining'', PJ (JNum 10)), (''reset'', PJ (JNum 1700000000)),
          (''used'', PJ (JNum 50)), (''reset_formatted'', PS (strftime t)),
          (''reset_relative'', PF [Lit ''<t:'', Fmt (JNum 1700000000), Lit '':R>''])]"
    using h
      check_rate_limit_ok [of nt w cfg r "[(''rate'', JObj [(''remaining'', JNum 10), (''limit'', JNum 60),
                            (''reset'', JNum 1700000000), (''used'', JNum 50)])]"
          "[(''remaining'', JNum 10), (''limit'', JNum 60), (''reset'', JNum 1700000000), (''used'', JNum 50)]" lt t]
    by (simp add: rate_body_def)
  then show "\<exists>d s. fst (check_rate_limit cfg lt nt w) = Inr d \<and>
         map_of d ''remaining'' = Some (PJ (JNum 10)) \<and>
         map_of d ''limit'' = Some (PJ (JNum 60)) \<and>
         map_of d ''used'' = Some (PJ (JNum 50)) \<and>
         map_of d ''reset_formatted'' = Some (PS s) \<and> s \<noteq> [] \<and>
         ''error'' \<notin> fst ` set d"
    by (simp add: strftime_nonempty)
qed

theorem check_rate_limit_never_raises_witness:
  "fst (check_rate_limit example_config utc_2023 (\<lambda>n rq. Raises (Exn ''ConnectError'' ''no route'')) fresh_world) =
     Inr [(''error'', PS ''Rate limit check failed: no route'')] \<and>
   fst (check_rate_limit example_config utc_2023 (\<lambda>n rq. Responds not_found) fresh_world) =
     Inr [(''error'', PS ''GitHub rate limit check failed with status 404'')] \<and>
   (\<exists>d. fst (check_rate_limit example_config utc_2023 (\<lambda>n rq. Responds (ok_json rate_body)) fresh_world) = Inr d \<and>
      map_of d ''remaining'' = Some (PJ (JNum 10)) \<and> map_of d ''limit'' = Some (PJ (JNum 60)) \<and>
      map_of d ''used'' = Some (PJ (JNum 50)) \<and>
      map_of d ''reset_formatted'' = Some (PS ''2023-11-14 22:13:20''))"
proof (intro conjI)
  have "(\<lambda>n rq. Raises (Exn ''ConnectError'' ''no route'')) (length (sent fresh_world)) (rate_request example_config)
          = Raises (Exn ''ConnectError'' ''no route'')"
    by simp
  with check_rate_limit_never_raises
         [of example_config utc_2023 "\<lambda>n rq. Raises (Exn ''ConnectError'' ''no route'')" fresh_world]
  have "fst (check_rate_limit example_config utc_2023 (\<lambda>n rq. Raises (Exn ''ConnectError'' ''no route'')) fresh_world) =
        Inr [(''error'', PS (''Rate limit check failed: '' @ exn_str (Exn ''ConnectError'' ''no route'')))]"
    by blast
  then show "fst (check_rate_limit example_config utc_2023 (\<lambda>n rq. Raises (Exn ''ConnectError'' ''no route'')) fresh_world) =
     Inr [(''error'', PS ''Rate limit check failed: no route'')]"
    by simp
next
  have "(\<lambda>n rq. Responds not_found) (length (sent fresh_world)) (rate_request example_config) = Responds not_found
        \<and> status_code not_found \<noteq> 200"
    by (simp add: not_found_def)
  with check_rate_limit_never_raises [of example_config utc_2023 "\<lambda>n rq. Responds not_found" fresh_world]
  have "fst (check_rate_limit example_config utc_2023 (\<lambda>n rq. Responds not_found) fresh_world) =
        Inr [(''error'', PS (''GitHub rate limit check failed with status '' @ show_int (status_code not_found)))]"
    by blast
  moreover have "show_int (status_code not_found) = ''404''"
    by code_simp
  ultimately show "fst (check_rate_limit example_config utc_2023 (\<lambda>n rq. Responds not_found) fresh_world) =
     Inr [(''error'', PS ''GitHub rate limit check failed with status 404'')]"
    by simp
next
  have h: "(\<lambda>n rq. Responds (ok_json rate_body)) (length (sent fresh_world)) (rate_request example_config)
             = Responds (ok_json rate_body) \<and>
        status_code (ok_json rate_body) = 200 \<and> json_body (ok_json rate_body) = Inr rate_body \<and>
        utc_2023 (Some 1700000000) =
          Inr \<lparr>tm_year = 2023, tm_mon = 11, tm_mday = 14, tm_hour = 22, tm_min = 13, tm_sec = 20\<rparr>"
    by (simp add: ok_json_def utc_2023_def)
  with check_rate_limit_never_raises [of example_config utc_2023 "\<lambda>n rq. Responds (ok_json rate_body)" fresh_world]
  obtain d s where d: "fst (check_rate_limit example_config utc_2023 (\<lambda>n rq. Responds (ok_json rate_body)) fresh_world) = Inr d"
     "map_of d ''remaining'' = Some (PJ (JNum 10))" "map_of d ''limit'' = Some (PJ (JNum 60))"
     "map_of d ''used'' = Some (PJ (JNum 50))" "map_of d ''reset_formatted'' = Some (PS s)"
    by blast
  have "fst (check_rate_limit example_config utc_2023 (\<lambda>n rq. Responds (ok_json rate_body)) fresh_world) =
     Inr [(''limit'', PJ (JNum 60)), (''remaining'', PJ (JNum 10)), (''reset'', PJ (JNum 1700000000)),
          (''used'', PJ (JNum 50)), (''reset_formatted'', PS ''2023-11-14 22:13:20''),
          (''reset_relative'', PF [Lit ''<t:'', Fmt (JNum 1700000000), Lit '':R>''])]"
    by code_simp
  with d(1) have dd: "d = [(''limit'', PJ (JNum 60)), (''remaining'', PJ (JNum 10)), (''reset'', PJ (JNum 1700000000)),
          (''used'', PJ (JNum 50)), (''reset_formatted'', PS ''2023-11-14 22:13:20''),
          (''reset_relative'', PF [Lit ''<t:'', Fmt (JNum 1700000000), Lit '':R>''])]"
    by simp
  with d(5) have "s = ''2023-11-14 22:13:20''"
    by simp
  with d show "\<exists>d. fst (check_rate_limit example_config utc_2023 (\<lambda>n rq. Responds (ok_json rate_body)) fresh_world) = Inr d \<and>
      map_of d ''remaining'' = Some (PJ (JNum 10)) \<and> map_of d ''limit'' = Some (PJ (JNum 60)) \<and>
      map_of d ''used'' = Some (PJ (JNum 50)) \<and>
      map_of d ''reset_formatted'' = Some (PS ''2023-11-14 22:13:20'')"
    by blast
qed



section \<open>Properties of fetch_file\<close>

lemma try_cdns_all_fail:
  "\<forall>n. \<forall>rq \<in> set (cdn_requests cfg ts repo commit path). is_failure (nt n rq) \<Longrightarrow>
   \<exists>w1. try_cdns cfg nt repo commit path ts w = (None, w1) \<and>
        sent w1 = sent w @ cdn_requests cfg ts repo commit path \<and>
        files w1 = files w \<and> downloaded_files w1 = downloaded_files w"
proof (induction ts arbitrary: w)
  case Nil
  then show ?case by (simp add: cdn_requests_def)
next
  case (Cons t ts)
  let ?rq = "(format_template t repo commit path, Some (headers cfg))"
  from Cons.prems have f: "is_failure (nt (length (sent w)) ?rq)"
    by (simp add: cdn_requests_def)
  from Cons.prems have rest: "\<forall>n. \<forall>rq \<in> set (cdn_requests cfg ts repo commit path). is_failure (nt n rq)"
    by (simp add: cdn_requests_def)
  show ?case
  proof (cases "nt (length (sent w)) ?rq")
    case (Raises e)
    let ?w1 = "log_msg Debug [Lit (msg_from @ format_template t repo commit path @ msg_download_failed @ exn_str e)]
                 (w\<lparr>sent := sent w @ [?rq]\<rparr>)"
    from Cons.IH [OF rest, of ?w1] obtain w2 where
      "try_cdns cfg nt repo commit path ts ?w1 = (None, w2)"
      "sent w2 = sent ?w1 @ cdn_requests cfg ts repo commit path"
      "files w2 = files ?w1" "downloaded_files w2 = downloaded_files ?w1"
      by blast
    with Raises show ?thesis
      by (simp add: client_get_def log_msg_def cdn_requests_def Let_def)
  next
    case (Responds r)
    with f have ne: "status_code r \<noteq> 200" by (simp add: is_failure_def)
    let ?w1 = "w\<lparr>sent := sent w @ [?rq]\<rparr>"
    from Cons.IH [OF rest, of ?w1] obtain w2 where
      "try_cdns cfg nt repo commit path ts ?w1 = (None, w2)"
      "sent w2 = sent ?w1 @ cdn_requests cfg ts repo commit path"
      "files w2 = files ?w1" "downloaded_files w2 = downloaded_files ?w1"
      by blast
    with Responds ne show ?thesis
      by (simp add: client_get_def cdn_requests_def Let_def)
  qed
qed

lemma attempts_all_fail:
  "\<forall>n. \<forall>rq \<in> set (cdn_requests cfg ts repo commit path). is_failure (nt n rq) \<Longrightarrow>
   \<exists>w1. attempts k cfg nt repo commit path ts w = (None, w1) \<and>
        sent w1 = sent w @ concat (replicate k (cdn_requests cfg ts repo commit path)) \<and>
        files w1 = files w \<and> downloaded_files w1 = downloaded_files w"
proof (induction k arbitrary: w)
  case 0
  then show ?case by simp
next
  case (Suc k)
  from try_cdns_all_fail [OF Suc.prems, of w] obtain w1 where
    w1: "try_cdns cfg nt repo commit path ts w = (None, w1)"
      "sent w1 = sent w @ cdn_requests cfg ts repo commit path"
      "files w1 = files w" "downloaded_files w1 = downloaded_files w"
    by blast
  from Suc.IH [OF Suc.prems, of w1] obtain w2 where
    "attempts k cfg nt repo commit path ts w1 = (None, w2)"
    "sent w2 = sent w1 @ concat (replicate k (cdn_requests cfg ts repo commit path))"
    "files w2 = files w1" "downloaded_files w2 = downloaded_files w1"
    by blast
  with w1 show ?case by simp
qed

lemma try_cdns_sent_bound:
  "length (sent (snd (try_cdns cfg nt repo commit path ts w))) \<le> length (sent w) + length ts"
proof (induction ts arbitrary: w)
  case Nil
  then show ?case by simp
next
  case (Cons t ts)
  let ?rq = "(format_template t repo commit path, Some (headers cfg))"
  show ?case
  proof (cases "nt (length (sent w)) ?rq")
    case (Raises e)
    let ?w1 = "log_msg Debug [Lit (msg_from @ format_template t repo commit path @ msg_download_failed @ exn_str e)]
                 (w\<lparr>sent := sent w @ [?rq]\<rparr>)"
    from Cons.IH [of ?w1] Raises show ?thesis
      by (simp add: client_get_def log_msg_def Let_def)
  next
    case (Responds r)
    let ?w1 = "w\<lparr>sent := sent w @ [?rq]\<rparr>"
    from Cons.IH [of ?w1] Responds show ?thesis
      by (simp add: client_get_def Let_def)
  qed
qed

lemma attempts_sent_bound:
  "length (sent (snd (attempts k cfg nt repo commit path ts w))) \<le> length (sent w) + k * length ts"
proof (induction k arbitrary: w)
  case 0
  then show ?case by simp
next
  case (Suc k)
  obtain res w1 where t: "try_cdns cfg nt repo commit path ts w = (res, w1)"
    by (cases "try_cdns cfg nt repo commit path ts w")
  with try_cdns_sent_bound [of cfg nt repo commit path ts w]
  have b1: "length (sent w1) \<le> length (sent w) + length ts" by simp
  show ?case
  proof (cases res)
    case None
    with t Suc.IH [of w1] b1 show ?thesis by simp
  next
    case (Some c)
    with t b1 show ?thesis by simp
  qed
qed

lemma fetch_file_sent_bound:
  "length (sent (snd (fetch_file cfg nt repo commit path w))) \<le>
     length (sent w) + 3 * length (if is_cn cfg then cn_cdn_list cfg else global_cdn_list cfg)"
proof -
  let ?cl = "if is_cn cfg then cn_cdn_list cfg else global_cdn_list cfg"
  obtain res w1 where a: "attempts 3 cfg nt repo commit path ?cl w = (res, w1)"
    by (cases "attempts 3 cfg nt repo commit path ?cl w")
  with attempts_sent_bound [of 3 cfg nt repo commit path ?cl w]
  have "length (sent w1) \<le> length (sent w) + 3 * length ?cl" by simp
  moreover from a have "snd (fetch_file cfg nt repo commit path w) = w1"
    by (cases res) (simp_all add: fetch_file_def)
  ultimately show ?thesis by simp
qed

lemma fetch_file_exhausts:
  "(\<forall>n. \<forall>rq \<in> set (cdn_requests cfg (if is_cn cfg then cn_cdn_list cfg else global_cdn_list cfg) repo commit path).
       is_failure (nt n rq)) \<longrightarrow>
     (\<exists>w1. fetch_file cfg nt repo commit path w =
              (Inl (Exn ''Exception'' (msg_cannot_download @ path)), w1) \<and>
           sent w1 = sent w @ concat (replicate 3
              (cdn_requests cfg (if is_cn cfg then cn_cdn_list cfg else global_cdn_list cfg) repo commit path)) \<and>
           length (sent w1) = length (sent w) +
              3 * length (if is_cn cfg then cn_cdn_list cfg else global_cdn_list cfg))"
proof
  let ?cl = "if is_cn cfg then cn_cdn_list cfg else global_cdn_list cfg"
  assume h: "\<forall>n. \<forall>rq \<in> set (cdn_requests cfg ?cl repo commit path). is_failure (nt n rq)"
  from attempts_all_fail [OF h, of 3 w] obtain w1 where
    w1: "attempts 3 cfg nt repo commit path ?cl w = (None, w1)"
      "sent w1 = sent w @ concat (replicate 3 (cdn_requests cfg ?cl repo commit path))"
    by blast
  from w1(1) have r: "fetch_file cfg nt repo commit path w =
      (Inl (Exn ''Exception'' (msg_cannot_download @ path)), w1)"
    by (simp add: fetch_file_def)
  have "length (concat (replicate 3 (cdn_requests cfg ?cl repo commit path))) = 3 * length ?cl"
    by (simp add: numeral_3_eq_3 cdn_requests_def)
  with w1(2) have "length (sent w1) = length (sent w) + 3 * length ?cl"
    by simp
  with r w1(2) show "\<exists>w1. fetch_file cfg nt repo commit path w =
              (Inl (Exn ''Exception'' (msg_cannot_download @ path)), w1) \<and>
           sent w1 = sent w @ concat (replicate 3 (cdn_requests cfg ?cl repo commit path)) \<and>
           length (sent w1) = length (sent w) + 3 * length ?cl"
    by blast
qed

text \<open>
  Claim C2. When every endpoint of the selected CDN list fails at every attempt (an
  exception or a status other than 200), \<open>fetch_file\<close> sends exactly three passes over
  the list, \<open>3 * |endpoints|\<close> requests in list order, and then raises the exception
  whose message ends with the requested path; it does not return bytes. Whatever the
  endpoints answer, it never sends more than \<open>3 * |endpoints|\<close> requests.
\<close>

theorem fetch_file_all_fail:
  "((\<forall>n. \<forall>rq \<in> set (cdn_requests cfg (if is_cn cfg then cn_cdn_list cfg else global_cdn_list cfg) repo commit path).
       is_failure (nt n rq)) \<longrightarrow>
     (\<exists>w1. fetch_file cfg nt repo commit path w =
              (Inl (Exn ''Exception'' (msg_cannot_download @ path)), w1) \<and>
           sent w1 = sent w @ concat (replicate 3
              (cdn_requests cfg (if is_cn cfg then cn_cdn_list cfg else global_cdn_list cfg) repo commit path)) \<and>
           length (sent w1) = length (sent w) +
              3 * length (if is_cn cfg then cn_cdn_list cfg else global_cdn_list cfg))) \<and>
   length (sent (snd (fetch_file cfg nt repo commit path w))) \<le>
     length (sent w) + 3 * length (if is_cn cfg then cn_cdn_list cfg else global_cdn_list cfg)"
  using fetch_file_exhausts [of cfg repo commit path nt w] fetch_file_sent_bound [of cfg nt repo commit path w]
  by (rule conjI)

theorem fetch_file_all_fail_witness:
  "fst (fetch_file example_config (\<lambda>n rq. Responds not_found) ''first/repo'' ''abc123'' ''1000_50.manifest'' fresh_world)
     = Inl (Exn ''Exception'' (msg_cannot_download @ ''1000_50.manifest'')) \<and>
   length (sent (snd (fetch_file example_config (\<lambda>n rq. Responds not_found) ''first/repo'' ''abc123''
                        ''1000_50.manifest'' fresh_world))) = 6"
proof -
  let ?nt = "\<lambda>(n::nat) (rq::request). Responds not_found"
  have h: "\<forall>n. \<forall>rq \<in> set (cdn_requests example_config
               (if is_cn example_config then cn_cdn_list example_config else global_cdn_list example_config)
               ''first/repo'' ''abc123'' ''1000_50.manifest''). is_failure (?nt n rq)"
    by (simp add: is_failure_def not_found_def)
  with fetch_file_all_fail [of example_config "''first/repo''" "''abc123''" "''1000_50.manifest''" ?nt fresh_world]
  obtain w1 where w1: "fetch_file example_config ?nt ''first/repo'' ''abc123'' ''1000_50.manifest'' fresh_world =
              (Inl (Exn ''Exception'' (msg_cannot_download @ ''1000_50.manifest'')), w1)"
     "length (sent w1) = length (sent fresh_world) +
              3 * length (if is_cn example_config then cn_cdn_list example_config else global_cdn_list example_config)"
    by blast
  from w1(2) have "length (sent w1) = 6"
    by (simp add: example_config_def fresh_world_def)
  with w1(1) show ?thesis by simp
qed

section \<open>Properties of get_latest_repo_info\<close>

lemma probe_step:
  "\<exists>w1. probe cfg fromiso nt app_id repo st w =
      (select_step st (repo, view_of fromiso (nt (length (sent w)) (branch_request cfg app_id repo))), w1) \<and>
      sent w1 = sent w @ [branch_request cfg app_id repo] \<and>
      files w1 = files w \<and> downloaded_files w1 = downloaded_files w"
  by (auto simp add: probe_def probe_try_def client_get_def select_step_def view_of_def branch_request_def
        log_msg_def Let_def split: outcome.splits sum.splits bool.splits)

lemma probe_all_views:
  "\<exists>w1. probe_all cfg fromiso nt app_id repos st w =
      (foldl select_step st (probe_views cfg fromiso nt app_id (length (sent w)) repos), w1) \<and>
      sent w1 = sent w @ map (branch_request cfg app_id) repos \<and>
      files w1 = files w \<and> downloaded_files w1 = downloaded_files w"
proof (induction repos arbitrary: st w)
  case Nil
  then show ?case by simp
next
  case (Cons repo repos)
  let ?v = "view_of fromiso (nt (length (sent w)) (branch_request cfg app_id repo))"
  from probe_step [of cfg fromiso nt app_id repo st w] obtain w1 where
    w1: "probe cfg fromiso nt app_id repo st w = (select_step st (repo, ?v), w1)"
      "sent w1 = sent w @ [branch_request cfg app_id repo]"
      "files w1 = files w" "downloaded_files w1 = downloaded_files w"
    by blast
  from Cons.IH [of "select_step st (repo, ?v)" w1] obtain w2 where
    "probe_all cfg fromiso nt app_id repos (select_step st (repo, ?v)) w1 =
      (foldl select_step (select_step st (repo, ?v))
         (probe_views cfg fromiso nt app_id (length (sent w1)) repos), w2)"
    "sent w2 = sent w1 @ map (branch_request cfg app_id) repos"
    "files w2 = files w1" "downloaded_files w2 = downloaded_files w1"
    by blast
  with w1 show ?case by simp
qed

lemma dt_gt_aware: "is_aware a \<Longrightarrow> is_aware b \<Longrightarrow> dt_gt a b = Inr (instant a > instant b)"
  by (cases a; cases b) simp_all

lemma select_step_not_dated: "\<not> is_dated (snd x) \<Longrightarrow> select_step st x = st"
  by (cases "snd x") (simp_all add: select_step_def)

lemma select_invariant:
  "\<forall>x \<in> set vs. aware_view (snd x) \<Longrightarrow>
   ((\<forall>x \<in> set vs. \<not> is_dated (snd x)) \<and> foldl select_step no_selection vs = no_selection) \<or>
   first_max vs (foldl select_step no_selection vs)"
proof (induction vs rule: rev_induct)
  case Nil
  then show ?case by simp
next
  case (snoc x vs)
  let ?st = "foldl select_step no_selection vs"
  from snoc.prems have aw: "\<forall>x \<in> set vs. aware_view (snd x)" and awx: "aware_view (snd x)"
    by simp_all
  note IH = snoc.IH [OF aw]
  show ?case
  proof (cases "snd x")
    case Silent
    then have same: "select_step ?st x = ?st" by (simp add: select_step_not_dated)
    from IH show ?thesis
    proof
      assume "(\<forall>x \<in> set vs. \<not> is_dated (snd x)) \<and> ?st = no_selection"
      with Silent same show ?thesis by simp
    next
      assume "first_max vs ?st"
      then obtain pre r d sh post where p: "vs = pre @ (r, Dated d sh) # post"
        "\<forall>x \<in> set pre. \<forall>d' sh'. snd x = Dated d' sh' \<longrightarrow> instant d' < instant d"
        "\<forall>x \<in> set post. \<forall>d' sh'. snd x = Dated d' sh' \<longrightarrow> instant d' \<le> instant d"
        "latest_date ?st = Some d" "selected_repo ?st = Some r" "\<forall>h. sh = Inr h \<longrightarrow> selected_sha ?st = h"
        unfolding first_max_def by blast
      from p(1) have "vs @ [x] = pre @ (r, Dated d sh) # (post @ [x])" by simp
      moreover from p(3) Silent
      have "\<forall>y \<in> set (post @ [x]). \<forall>d' sh'. snd y = Dated d' sh' \<longrightarrow> instant d' \<le> instant d"
        by auto
      ultimately have "first_max (vs @ [x]) ?st"
        unfolding first_max_def using p(2,4,5,6) by blast
      with same show ?thesis by simp
    qed
  next
    case (Failed e)
    then have same: "select_step ?st x = ?st" by (simp add: select_step_not_dated)
    from IH show ?thesis
    proof
      assume "(\<forall>x \<in> set vs. \<not> is_dated (snd x)) \<and> ?st = no_selection"
      with Failed same show ?thesis by simp
    next
      assume "first_max vs ?st"
      then obtain pre r d sh post where p: "vs = pre @ (r, Dated d sh) # post"
        "\<forall>x \<in> set pre. \<forall>d' sh'. snd x = Dated d' sh' \<longrightarrow> instant d' < instant d"
        "\<forall>x \<in> set post. \<forall>d' sh'. snd x = Dated d' sh' \<longrightarrow> instant d' \<le> instant d"
        "latest_date ?st = Some d" "selected_repo ?st = Some r" "\<forall>h. sh = Inr h \<longrightarrow> selected_sha ?st = h"
        unfolding first_max_def by blast
      from p(1) have "vs @ [x] = pre @ (r, Dated d sh) # (post @ [x])" by simp
      moreover from p(3) Failed
      have "\<forall>y \<in> set (post @ [x]). \<forall>d' sh'. snd y = Dated d' sh' \<longrightarrow> instant d' \<le> instant d"
        by auto
      ultimately have "first_max (vs @ [x]) ?st"
        unfolding first_max_def using p(2,4,5,6) by blast
      with same show ?thesis by simp
    qed
  next
    case (Dated dx sx)
    with awx have adx: "is_aware dx" by simp
    obtain rx where x: "x = (rx, Dated dx sx)" using Dated by (cases x) simp
    from IH show ?thesis
    proof
      assume e: "(\<forall>x \<in> set vs. \<not> is_dated (snd x)) \<and> ?st = no_selection"
      then have st: "?st = no_selection" by simp
      have new: "latest_date (select_step ?st x) = Some dx \<and> selected_repo (select_step ?st x) = Some rx \<and>
          (\<forall>h. sx = Inr h \<longrightarrow> selected_sha (select_step ?st x) = h)"
        unfolding st x by (cases sx) (simp_all add: select_step_def is_newer_def no_selection_def)
      from e have "\<forall>y \<in> set vs. \<forall>d' sh'. snd y = Dated d' sh' \<longrightarrow> instant d' < instant dx"
        by auto
      with new have "first_max (vs @ [x]) (select_step ?st x)"
        unfolding first_max_def x by (intro exI [of _ vs] exI [of _ rx] exI [of _ dx] exI [of _ sx] exI [of _ "[]"]) simp
      then show ?thesis by simp
    next
      assume "first_max vs ?st"
      then obtain pre r d sh post where p: "vs = pre @ (r, Dated d sh) # post"
        "\<forall>x \<in> set pre. \<forall>d' sh'. snd x = Dated d' sh' \<longrightarrow> instant d' < instant d"
        "\<forall>x \<in> set post. \<forall>d' sh'. snd x = Dated d' sh' \<longrightarrow> instant d' \<le> instant d"
        "latest_date ?st = Some d" "selected_repo ?st = Some r" "\<forall>h. sh = Inr h \<longrightarrow> selected_sha ?st = h"
        unfolding first_max_def by blast
      from p(1) aw have ad: "is_aware d" by auto
      from adx ad p(4) have cmp: "is_newer dx (latest_date ?st) = Inr (instant dx > instant d)"
        by (simp add: is_newer_def dt_gt_aware)
      show ?thesis
      proof (cases "instant dx > instant d")
        case True
        with cmp have new: "latest_date (select_step ?st x) = Some dx \<and> selected_repo (select_step ?st x) = Some rx \<and>
          (\<forall>h. sx = Inr h \<longrightarrow> selected_sha (select_step ?st x) = h)"
          unfolding x by (cases sx) (simp_all add: select_step_def)
        from p(1,2,3) True
        have "\<forall>y \<in> set vs. \<forall>d' sh'. snd y = Dated d' sh' \<longrightarrow> instant d' < instant dx"
          by fastforce
        with new have "first_max (vs @ [x]) (select_step ?st x)"
          unfolding first_max_def x by (intro exI [of _ vs] exI [of _ rx] exI [of _ dx] exI [of _ sx] exI [of _ "[]"]) simp
        then show ?thesis by simp
      next
        case False
        with cmp have same: "select_step ?st x = ?st"
          unfolding x by (simp add: select_step_def)
        from p(1) have "vs @ [x] = pre @ (r, Dated d sh) # (post @ [x])" by simp
        moreover from p(3) False x
        have "\<forall>y \<in> set (post @ [x]). \<forall>d' sh'. snd y = Dated d' sh' \<longrightarrow> instant d' \<le> instant d"
          by auto
        ultimately have "first_max (vs @ [x]) ?st"
          unfolding first_max_def using p(2,4,5,6) by blast
        with same show ?thesis by simp
      qed
    qed
  qed
qed

lemma probe_views_fst: "map fst (probe_views cfg fromiso nt app_id n repos) = repos"
  by (induction repos arbitrary: n) simp_all

lemma probe_views_steady:
  "probe_views cfg fromiso (steady resp) app_id n repos =
     map (\<lambda>r. (r, answer cfg fromiso resp app_id r)) repos"
  by (induction repos arbitrary: n) (simp_all add: steady_def answer_def)

lemma get_latest_repo_info_views:
  "\<exists>w1. get_latest_repo_info cfg fromiso nt repos app_id w =
      ((case selected_repo (foldl select_step no_selection (probe_views cfg fromiso nt app_id (length (sent w)) repos)) of
          None \<Rightarrow> None
        | Some r \<Rightarrow>
            if r \<noteq> [] then
              Some \<lparr>name = r,
                    last_update = latest_date (foldl select_step no_selection (probe_views cfg fromiso nt app_id (length (sent w)) repos)),
                    sha = selected_sha (foldl select_step no_selection (probe_views cfg fromiso nt app_id (length (sent w)) repos))\<rparr>
            else None), w1) \<and>
      sent w1 = sent w @ map (branch_request cfg app_id) repos \<and>
      files w1 = files w \<and> downloaded_files w1 = downloaded_files w"
proof -
  from probe_all_views [of cfg fromiso nt app_id repos no_selection w] obtain w1 where
    w1: "probe_all cfg fromiso nt app_id repos no_selection w =
      (foldl select_step no_selection (probe_views cfg fromiso nt app_id (length (sent w)) repos), w1)"
      "sent w1 = sent w @ map (branch_request cfg app_id) repos"
      "files w1 = files w" "downloaded_files w1 = downloaded_files w"
    by blast
  from w1(1) have "probe_all cfg fromiso nt app_id repos
       \<lparr>latest_date = None, selected_repo = None, selected_sha = JNull\<rparr> w =
      (foldl select_step no_selection (probe_views cfg fromiso nt app_id (length (sent w)) repos), w1)"
    by (simp add: no_selection_def)
  with w1(2,3,4) show ?thesis
    by (simp add: get_latest_repo_info_def split: option.splits)
qed

lemma get_latest_selects:
  assumes ne: "[] \<notin> set repos"
    and aw: "\<forall>x \<in> set (probe_views cfg fromiso nt app_id (length (sent w)) repos). aware_view (snd x)"
  shows "selects_first_max (probe_views cfg fromiso nt app_id (length (sent w)) repos)
           (fst (get_latest_repo_info cfg fromiso nt repos app_id w))"
proof -
  let ?vs = "probe_views cfg fromiso nt app_id (length (sent w)) repos"
  let ?st = "foldl select_step no_selection ?vs"
  from get_latest_repo_info_views [of cfg fromiso nt repos app_id w]
  have res: "fst (get_latest_repo_info cfg fromiso nt repos app_id w) =
      (case selected_repo ?st of None \<Rightarrow> None
        | Some r \<Rightarrow> if r \<noteq> [] then Some \<lparr>name = r, last_update = latest_date ?st, sha = selected_sha ?st\<rparr> else None)"
    by auto
  from select_invariant [OF aw] show ?thesis
  proof
    assume "(\<forall>x \<in> set ?vs. \<not> is_dated (snd x)) \<and> ?st = no_selection"
    with res show ?thesis by (simp add: selects_first_max_def no_selection_def)
  next
    assume "first_max ?vs ?st"
    then obtain pre r d s post where p: "?vs = pre @ (r, Dated d s) # post"
        "\<forall>x \<in> set pre. \<forall>d' sh'. snd x = Dated d' sh' \<longrightarrow> instant d' < instant d"
        "\<forall>x \<in> set post. \<forall>d' sh'. snd x = Dated d' sh' \<longrightarrow> instant d' \<le> instant d"
        "latest_date ?st = Some d" "selected_repo ?st = Some r" "\<forall>h. s = Inr h \<longrightarrow> selected_sha ?st = h"
      unfolding first_max_def by blast
    from p(1) have "r \<in> set (map fst ?vs)" by simp
    then have "r \<in> set repos" by (simp only: probe_views_fst)
    with ne have rne: "r \<noteq> []" by auto
    from p(1) have dated: "\<not> (\<forall>x \<in> set ?vs. \<not> is_dated (snd x))" by auto
    let ?info = "\<lparr>name = r, last_update = latest_date ?st, sha = selected_sha ?st\<rparr>"
    from res p(5) rne have r2: "fst (get_latest_repo_info cfg fromiso nt repos app_id w) = Some ?info"
      by simp
    have "\<exists>pre r d s post info.
              ?vs = pre @ (r, Dated d s) # post \<and>
              (\<forall>x \<in> set pre. \<forall>d1 s1. snd x = Dated d1 s1 \<longrightarrow> instant d1 < instant d) \<and>
              (\<forall>x \<in> set post. \<forall>d1 s1. snd x = Dated d1 s1 \<longrightarrow> instant d1 \<le> instant d) \<and>
              fst (get_latest_repo_info cfg fromiso nt repos app_id w) = Some info \<and>
              name info = r \<and> last_update info = Some d \<and> (\<forall>h. s = Inr h \<longrightarrow> sha info = h)"
      by (intro exI [of _ pre] exI [of _ r] exI [of _ d] exI [of _ s] exI [of _ post] exI [of _ ?info])
         (use p r2 in simp)
    with dated show ?thesis
      by (simp only: selects_first_max_def if_False)
  qed
qed

lemma selects_first_max_max:
  assumes dec: "vs = pre @ (r, Dated d s) # post"
    and pre: "\<forall>x \<in> set pre. \<forall>d1 s1. snd x = Dated d1 s1 \<longrightarrow> instant d1 < instant d"
    and post: "\<forall>x \<in> set post. \<forall>d1 s1. snd x = Dated d1 s1 \<longrightarrow> instant d1 \<le> instant d"
    and x: "(r1, Dated d1 s1) \<in> set vs"
  shows "instant d1 \<le> instant d"
proof -
  from x dec have "(r1, Dated d1 s1) \<in> set pre \<or> (r1, Dated d1 s1) = (r, Dated d s) \<or> (r1, Dated d1 s1) \<in> set post"
    by auto
  then show ?thesis
  proof (elim disjE)
    assume "(r1, Dated d1 s1) \<in> set pre"
    with pre have "instant d1 < instant d" by fastforce
    then show ?thesis by simp
  next
    assume "(r1, Dated d1 s1) = (r, Dated d s)"
    then show ?thesis by simp
  next
    assume "(r1, Dated d1 s1) \<in> set post"
    with post show ?thesis by fastforce
  qed
qed

lemma selects_first_max_order:
  assumes same: "set repos2 = set repos1"
    and dd: "distinct_dates ans repos1"
    and hs: "\<forall>r \<in> set repos1. has_sha (ans r)"
    and s1: "selects_first_max (map (\<lambda>r. (r, ans r)) repos1) res1"
    and s2: "selects_first_max (map (\<lambda>r. (r, ans r)) repos2) res2"
  shows "res2 = res1"
proof (cases "\<forall>r \<in> set repos1. \<not> is_dated (ans r)")
  case True
  with same have "\<forall>r \<in> set repos2. \<not> is_dated (ans r)" by simp
  with True s1 s2 show ?thesis by (simp add: selects_first_max_def)
next
  case False
  let ?vs1 = "map (\<lambda>r. (r, ans r)) repos1" and ?vs2 = "map (\<lambda>r. (r, ans r)) repos2"
  from False have n1: "\<not> (\<forall>x \<in> set ?vs1. \<not> is_dated (snd x))" by simp
  from False same have n2: "\<not> (\<forall>x \<in> set ?vs2. \<not> is_dated (snd x))" by simp
  from s1 n1 obtain pre1 r1 d1 h1 post1 info1 where p1:
    "?vs1 = pre1 @ (r1, Dated d1 h1) # post1"
    "\<forall>x \<in> set pre1. \<forall>d s. snd x = Dated d s \<longrightarrow> instant d < instant d1"
    "\<forall>x \<in> set post1. \<forall>d s. snd x = Dated d s \<longrightarrow> instant d \<le> instant d1"
    "res1 = Some info1" "name info1 = r1" "last_update info1 = Some d1" "\<forall>h. h1 = Inr h \<longrightarrow> sha info1 = h"
    unfolding selects_first_max_def by (simp only: if_False) blast
  from s2 n2 obtain pre2 r2 d2 h2 post2 info2 where p2:
    "?vs2 = pre2 @ (r2, Dated d2 h2) # post2"
    "\<forall>x \<in> set pre2. \<forall>d s. snd x = Dated d s \<longrightarrow> instant d < instant d2"
    "\<forall>x \<in> set post2. \<forall>d s. snd x = Dated d s \<longrightarrow> instant d \<le> instant d2"
    "res2 = Some info2" "name info2 = r2" "last_update info2 = Some d2" "\<forall>h. h2 = Inr h \<longrightarrow> sha info2 = h"
    unfolding selects_first_max_def by (simp only: if_False) blast
  have m1: "(r1, Dated d1 h1) \<in> set ?vs1" by (subst p1(1)) simp
  have m2: "(r2, Dated d2 h2) \<in> set ?vs2" by (subst p2(1)) simp
  from m1 have a1: "r1 \<in> set repos1" "ans r1 = Dated d1 h1" by auto
  from m2 have a2: "r2 \<in> set repos2" "ans r2 = Dated d2 h2" by auto
  from a1 same have "(r1, Dated d1 h1) \<in> set ?vs2" by force
  from selects_first_max_max [OF p2(1) p2(2) p2(3) this] have le1: "instant d1 \<le> instant d2" .
  from a2 same have "(r2, Dated d2 h2) \<in> set ?vs1" by force
  from selects_first_max_max [OF p1(1) p1(2) p1(3) this] have le2: "instant d2 \<le> instant d1" .
  from le1 le2 have eq: "instant d1 = instant d2" by simp
  have r: "r1 = r2"
  proof (rule ccontr)
    assume "r1 \<noteq> r2"
    with dd a1 a2 same have "instant d1 \<noteq> instant d2"
      unfolding distinct_dates_def by blast
    with eq show False by simp
  qed
  with a1 a2 have d: "d1 = d2" and h: "h1 = h2" by simp_all
  from hs a1 obtain hh where hh: "h1 = Inr hh" by (cases h1) auto
  with p1(7) p2(7) h have "sha info1 = sha info2" by metis
  with p1(5,6) p2(5,6) r d have "info1 = info2" by simp
  with p1(4) p2(4) show ?thesis by simp
qed

text \<open>
  Claim C1. Let the candidates' answers carry time-zone-aware commit dates, as the hosting
  API sends them, and let no repository name be empty. Then \<open>get_latest_repo_info\<close>
  returns nothing when no candidate delivered a date, and otherwise the candidate at a
  position of the list whose date is strictly later than every date before it and not
  earlier than any date after it: the maximum, and among equal maxima the first seen,
  since the comparison is a strict \<open>>\<close>. The result carries that candidate's name and date,
  and its sha when its answer holds one. If moreover the remote side is steady, every
  dated answer holds a sha and different repositories have different dates, the result is
  the same for every list with the same members, hence for every order of the list.
\<close>

theorem get_latest_repo_info_latest:
  "([] \<notin> set repos \<and>
    (\<forall>x \<in> set (probe_views cfg fromiso nt app_id (length (sent w)) repos). aware_view (snd x)) \<longrightarrow>
      selects_first_max (probe_views cfg fromiso nt app_id (length (sent w)) repos)
        (fst (get_latest_repo_info cfg fromiso nt repos app_id w))) \<and>
   ([] \<notin> set repos1 \<and> set repos2 = set repos1 \<and>
    (\<forall>r \<in> set repos1. aware_view (answer cfg fromiso resp app_id r) \<and>
                         has_sha (answer cfg fromiso resp app_id r)) \<and>
    distinct_dates (answer cfg fromiso resp app_id) repos1 \<longrightarrow>
      fst (get_latest_repo_info cfg fromiso (steady resp) repos2 app_id w2) =
      fst (get_latest_repo_info cfg fromiso (steady resp) repos1 app_id w1))"
proof (intro conjI impI)
  assume "[] \<notin> set repos \<and>
    (\<forall>x \<in> set (probe_views cfg fromiso nt app_id (length (sent w)) repos). aware_view (snd x))"
  then show "selects_first_max (probe_views cfg fromiso nt app_id (length (sent w)) repos)
        (fst (get_latest_repo_info cfg fromiso nt repos app_id w))"
    by (simp add: get_latest_selects)
next
  let ?ans = "answer cfg fromiso resp app_id"
  assume h: "[] \<notin> set repos1 \<and> set repos2 = set repos1 \<and>
    (\<forall>r \<in> set repos1. aware_view (?ans r) \<and> has_sha (?ans r)) \<and> distinct_dates ?ans repos1"
  then have ne1: "[] \<notin> set repos1" and ne2: "[] \<notin> set repos2" and same: "set repos2 = set repos1"
    and dd: "distinct_dates ?ans repos1" and hs: "\<forall>r \<in> set repos1. has_sha (?ans r)"
    and aw1: "\<forall>r \<in> set repos1. aware_view (?ans r)" and aw2: "\<forall>r \<in> set repos2. aware_view (?ans r)"
    by simp_all
  have v1: "probe_views cfg fromiso (steady resp) app_id (length (sent w1)) repos1 = map (\<lambda>r. (r, ?ans r)) repos1"
    by (rule probe_views_steady)
  have v2: "probe_views cfg fromiso (steady resp) app_id (length (sent w2)) repos2 = map (\<lambda>r. (r, ?ans r)) repos2"
    by (rule probe_views_steady)
  from aw1 have "\<forall>x \<in> set (probe_views cfg fromiso (steady resp) app_id (length (sent w1)) repos1). aware_view (snd x)"
    unfolding v1 by simp
  from get_latest_selects [OF ne1 this]
  have s1: "selects_first_max (map (\<lambda>r. (r, ?ans r)) repos1)
              (fst (get_latest_repo_info cfg fromiso (steady resp) repos1 app_id w1))"
    unfolding v1 .
  from aw2 have "\<forall>x \<in> set (probe_views cfg fromiso (steady resp) app_id (length (sent w2)) repos2). aware_view (snd x)"
    unfolding v2 by simp
  from get_latest_selects [OF ne2 this]
  have s2: "selects_first_max (map (\<lambda>r. (r, ?ans r)) repos2)
              (fst (get_latest_repo_info cfg fromiso (steady resp) repos2 app_id w2))"
    unfolding v2 .
  from selects_first_max_order [OF same dd hs s1 s2]
  show "fst (get_latest_repo_info cfg fromiso (steady resp) repos2 app_id w2) =
      fst (get_latest_repo_info cfg fromiso (steady resp) repos1 app_id w1)" .
qed

lemma example_answers:
  "answer example_config example_fromiso example_remote ''730'' ''first/repo'' =
     Dated (Aware 1704067200 0) (Inr (JStr ''aaa111''))"
  "answer example_config example_fromiso example_remote ''730'' ''second/repo'' =
     Dated (Aware 1709251200 0) (Inr (JStr ''bbb222''))"
  by code_simp+

theorem get_latest_repo_info_latest_witness:
  "fst (get_latest_repo_info example_config example_fromiso (steady example_remote)
          [''second/repo'', ''first/repo''] ''730'' fresh_world) =
   fst (get_latest_repo_info example_config example_fromiso (steady example_remote)
          [''first/repo'', ''second/repo''] ''730'' fresh_world) \<and>
   fst (get_latest_repo_info example_config example_fromiso (steady example_remote)
          [''first/repo'', ''second/repo''] ''730'' fresh_world) =
     Some \<lparr>name = ''second/repo'', last_update = Some (Aware 1709251200 0), sha = JStr ''bbb222''\<rparr> \<and>
   selects_first_max
     (probe_views example_config example_fromiso (steady example_remote) ''730'' (length (sent fresh_world))
        [''first/repo'', ''second/repo''])
     (fst (get_latest_repo_info example_config example_fromiso (steady example_remote)
          [''first/repo'', ''second/repo''] ''730'' fresh_world))"
proof -
  let ?ans = "answer example_config example_fromiso example_remote ''730''"
  have h2: "[] \<notin> set [''first/repo'', ''second/repo''] \<and>
      set [''second/repo'', ''first/repo''] = set [''first/repo'', ''second/repo''] \<and>
      (\<forall>r \<in> set [''first/repo'', ''second/repo'']. aware_view (?ans r) \<and> has_sha (?ans r)) \<and>
      distinct_dates ?ans [''first/repo'', ''second/repo'']"
    by (auto simp add: example_answers distinct_dates_def)
  have v: "probe_views example_config example_fromiso (steady example_remote) ''730'' (length (sent fresh_world))
        [''first/repo'', ''second/repo''] =
      [(''first/repo'', ?ans ''first/repo''), (''second/repo'', ?ans ''second/repo'')]"
    by (simp only: probe_views_steady list.map)
  have h1: "[] \<notin> set [''first/repo'', ''second/repo''] \<and>
      (\<forall>x \<in> set (probe_views example_config example_fromiso (steady example_remote) ''730''
                     (length (sent fresh_world)) [''first/repo'', ''second/repo'']). aware_view (snd x))"
    unfolding v by (simp add: example_answers)
  note t = get_latest_repo_info_latest
    [of "[''first/repo'', ''second/repo'']" example_config example_fromiso "steady example_remote" "''730''"
        fresh_world "[''first/repo'', ''second/repo'']" "[''second/repo'', ''first/repo'']" example_remote
        fresh_world fresh_world]
  from t h2 have a: "fst (get_latest_repo_info example_config example_fromiso (steady example_remote)
          [''second/repo'', ''first/repo''] ''730'' fresh_world) =
   fst (get_latest_repo_info example_config example_fromiso (steady example_remote)
          [''first/repo'', ''second/repo''] ''730'' fresh_world)"
    by blast
  from t h1 have b: "selects_first_max
     (probe_views example_config example_fromiso (steady example_remote) ''730'' (length (sent fresh_world))
        [''first/repo'', ''second/repo''])
     (fst (get_latest_repo_info example_config example_fromiso (steady example_remote)
          [''first/repo'', ''second/repo''] ''730'' fresh_world))"
    by blast
  have c: "fst (get_latest_repo_info example_config example_fromiso (steady example_remote)
          [''first/repo'', ''second/repo''] ''730'' fresh_world) =
     Some \<lparr>name = ''second/repo'', last_update = Some (Aware 1709251200 0), sha = JStr ''bbb222''\<rparr>"
    by code_simp
  from a b c show ?thesis by blast
qed

lemma probe_failed:
  "view_of fromiso (nt (length (sent w)) (branch_request cfg app_id repo)) = Failed e \<Longrightarrow>
   probe cfg fromiso nt app_id repo st w =
     (st, w\<lparr>sent := sent w @ [branch_request cfg app_id repo],
            logged := logged w @ [(Warning, [Lit (msg_check_repo @ repo @ msg_failed @ exn_str e)])]\<rparr>)"
  by (auto simp add: probe_def probe_try_def client_get_def view_of_def branch_request_def
        log_msg_def Let_def split: outcome.splits sum.splits bool.splits if_splits)

lemma probe_silent:
  "view_of fromiso (nt (length (sent w)) (branch_request cfg app_id repo)) = Silent \<Longrightarrow>
   probe cfg fromiso nt app_id repo st w = (st, w\<lparr>sent := sent w @ [branch_request cfg app_id repo]\<rparr>)"
  by (auto simp add: probe_def probe_try_def client_get_def view_of_def branch_request_def
        log_msg_def Let_def split: outcome.splits sum.splits bool.splits if_splits)

lemma foldl_select_filter:
  "foldl select_step st (map (\<lambda>r. (r, ans r)) (filter (\<lambda>r. is_dated (ans r)) repos)) =
   foldl select_step st (map (\<lambda>r. (r, ans r)) repos)"
  by (induction repos arbitrary: st) (simp_all add: select_step_not_dated)

lemma get_latest_repo_info_steady:
  "fst (get_latest_repo_info cfg fromiso (steady resp) repos app_id w) =
     (case selected_repo (foldl select_step no_selection (map (\<lambda>r. (r, answer cfg fromiso resp app_id r)) repos)) of
          None \<Rightarrow> None
        | Some r \<Rightarrow>
            if r \<noteq> [] then
              Some \<lparr>name = r,
                    last_update = latest_date (foldl select_step no_selection (map (\<lambda>r. (r, answer cfg fromiso resp app_id r)) repos)),
                    sha = selected_sha (foldl select_step no_selection (map (\<lambda>r. (r, answer cfg fromiso resp app_id r)) repos))\<rparr>
            else None)"
  using get_latest_repo_info_views [of cfg fromiso "steady resp" repos app_id w]
  by (auto simp only: probe_views_steady fst_conv)

lemma get_latest_repo_info_sent:
  "sent (snd (get_latest_repo_info cfg fromiso nt repos app_id w)) =
     sent w @ map (branch_request cfg app_id) repos"
  using get_latest_repo_info_views [of cfg fromiso nt repos app_id w] by auto

text \<open>
  Claim C6, amended. No failure of a candidate ends the loop: every candidate of the list
  is queried once, in list order, whatever the answers are. A candidate whose query
  raises before a commit date is read (transport error, unreadable body, missing or
  unparsable date) leaves the selection as it was and adds one warning that names the
  repository and the exception. A candidate with a status other than 200, or with a body
  without a \<open>commit\<close> entry, leaves the selection as it was and adds no log entry. With a
  steady remote side the result is the one for the list without these candidates.
\<close>

theorem get_latest_repo_info_skips_failures:
  "sent (snd (get_latest_repo_info cfg fromiso nt repos app_id w)) =
     sent w @ map (branch_request cfg app_id) repos \<and>
   (\<forall>e. view_of fromiso (nt (length (sent w)) (branch_request cfg app_id repo)) = Failed e \<longrightarrow>
      probe cfg fromiso nt app_id repo st w =
        (st, w\<lparr>sent := sent w @ [branch_request cfg app_id repo],
               logged := logged w @ [(Warning, [Lit (msg_check_repo @ repo @ msg_failed @ exn_str e)])]\<rparr>)) \<and>
   (view_of fromiso (nt (length (sent w)) (branch_request cfg app_id repo)) = Silent \<longrightarrow>
      probe cfg fromiso nt app_id repo st w = (st, w\<lparr>sent := sent w @ [branch_request cfg app_id repo]\<rparr>)) \<and>
   fst (get_latest_repo_info cfg fromiso (steady resp) repos app_id w) =
     fst (get_latest_repo_info cfg fromiso (steady resp)
            (filter (\<lambda>r. is_dated (answer cfg fromiso resp app_id r)) repos) app_id w1)"
proof (intro conjI allI impI)
  show "sent (snd (get_latest_repo_info cfg fromiso nt repos app_id w)) =
     sent w @ map (branch_request cfg app_id) repos"
    by (rule get_latest_repo_info_sent)
next
  fix e assume "view_of fromiso (nt (length (sent w)) (branch_request cfg app_id repo)) = Failed e"
  then show "probe cfg fromiso nt app_id repo st w =
        (st, w\<lparr>sent := sent w @ [branch_request cfg app_id repo],
               logged := logged w @ [(Warning, [Lit (msg_check_repo @ repo @ msg_failed @ exn_str e)])]\<rparr>)"
    by (rule probe_failed)
next
  assume "view_of fromiso (nt (length (sent w)) (branch_request cfg app_id repo)) = Silent"
  then show "probe cfg fromiso nt app_id repo st w = (st, w\<lparr>sent := sent w @ [branch_request cfg app_id repo]\<rparr>)"
    by (rule probe_silent)
next
  show "fst (get_latest_repo_info cfg fromiso (steady resp) repos app_id w) =
     fst (get_latest_repo_info cfg fromiso (steady resp)
            (filter (\<lambda>r. is_dated (answer cfg fromiso resp app_id r)) repos) app_id w1)"
    by (simp only: get_latest_repo_info_steady foldl_select_filter)
qed

text \<open>
  Claim C6 as the spec words it does not hold. A candidate without a matching branch (status
  404) is passed over without any log entry: only exceptions reach the handler of line
  81. And a 200 answer with a later date but no \<open>sha\<close> entry is not skipped: lines 78 and
  79 have run when line 80 raises, so the result names \<open>second/repo\<close> with the sha read
  from \<open>first/repo\<close>.
\<close>

theorem unmatched_branch_not_logged:
  "view_of example_fromiso (steady example_remote 0 (branch_request example_config ''730'' ''third/repo'')) = Silent \<and>
   logged (snd (get_latest_repo_info example_config example_fromiso (steady example_remote)
                  [''third/repo''] ''730'' fresh_world)) = [] \<and>
   fst (get_latest_repo_info example_config example_fromiso (steady sha_less_remote)
          [''first/repo'', ''second/repo''] ''730'' fresh_world) =
     Some \<lparr>name = ''second/repo'', last_update = Some (Aware 1709251200 0), sha = JStr ''aaa111''\<rparr>"
  by code_simp

theorem get_latest_repo_info_skips_failures_witness:
  "probe example_config example_fromiso (steady flaky_remote) ''730'' ''first/repo'' no_selection fresh_world =
     (no_selection,
      fresh_world\<lparr>sent := sent fresh_world @ [branch_request example_config ''730'' ''first/repo''],
                  logged := logged fresh_world @
                    [(Warning, [Lit (msg_check_repo @ ''first/repo'' @ msg_failed @ ''timed out'')])]\<rparr>) \<and>
   probe example_config example_fromiso (steady flaky_remote) ''730'' ''third/repo'' no_selection fresh_world =
     (no_selection, fresh_world\<lparr>sent := sent fresh_world @ [branch_request example_config ''730'' ''third/repo'']\<rparr>) \<and>
   fst (get_latest_repo_info example_config example_fromiso (steady flaky_remote)
          [''first/repo'', ''third/repo'', ''second/repo''] ''730'' fresh_world) =
     fst (get_latest_repo_info example_config example_fromiso (steady flaky_remote)
            (filter (\<lambda>r. is_dated (answer example_config example_fromiso flaky_remote ''730'' r))
               [''first/repo'', ''third/repo'', ''second/repo'']) ''730'' fresh_world) \<and>
   fst (get_latest_repo_info example_config example_fromiso (steady flaky_remote)
          [''first/repo'', ''third/repo'', ''second/repo''] ''730'' fresh_world) =
     Some \<lparr>name = ''second/repo'', last_update = Some (Aware 1709251200 0), sha = JStr ''bbb222''\<rparr>"
proof -
  have f: "view_of example_fromiso
             (steady flaky_remote (length (sent fresh_world)) (branch_request example_config ''730'' ''first/repo''))
           = Failed (Exn ''ConnectTimeout'' ''timed out'')"
    by code_simp
  have s: "view_of example_fromiso
             (steady flaky_remote (length (sent fresh_world)) (branch_request example_config ''730'' ''third/repo''))
           = Silent"
    by code_simp
  note t1 = get_latest_repo_info_skips_failures
    [of example_config example_fromiso "steady flaky_remote" "[''first/repo'', ''third/repo'', ''second/repo'']"
        "''730''" fresh_world "''first/repo''" no_selection flaky_remote fresh_world]
  note t2 = get_latest_repo_info_skips_failures
    [of example_config example_fromiso "steady flaky_remote" "[''first/repo'', ''third/repo'', ''second/repo'']"
        "''730''" fresh_world "''third/repo''" no_selection flaky_remote fresh_world]
  from t1 f have a: "probe example_config example_fromiso (steady flaky_remote) ''730'' ''first/repo'' no_selection fresh_world =
     (no_selection,
      fresh_world\<lparr>sent := sent fresh_world @ [branch_request example_config ''730'' ''first/repo''],
                  logged := logged fresh_world @
                    [(Warning, [Lit (msg_check_repo @ ''first/repo'' @ msg_failed @
                                      exn_str (Exn ''ConnectTimeout'' ''timed out''))])]\<rparr>)"
    by blast
  from t2 s have b: "probe example_config example_fromiso (steady flaky_remote) ''730'' ''third/repo'' no_selection fresh_world =
     (no_selection, fresh_world\<lparr>sent := sent fresh_world @ [branch_request example_config ''730'' ''third/repo'']\<rparr>)"
    by blast
  from t1 have c: "fst (get_latest_repo_info example_config example_fromiso (steady flaky_remote)
          [''first/repo'', ''third/repo'', ''second/repo''] ''730'' fresh_world) =
     fst (get_latest_repo_info example_config example_fromiso (steady flaky_remote)
            (filter (\<lambda>r. is_dated (answer example_config example_fromiso flaky_remote ''730'' r))
               [''first/repo'', ''third/repo'', ''second/repo'']) ''730'' fresh_world)"
    by blast
  have d: "fst (get_latest_repo_info example_config example_fromiso (steady flaky_remote)
          [''first/repo'', ''third/repo'', ''second/repo''] ''730'' fresh_world) =
     Some \<lparr>name = ''second/repo'', last_update = Some (Aware 1709251200 0), sha = JStr ''bbb222''\<rparr>"
    by code_simp
  from a b c d show ?thesis by simp
qed

section \<open>Properties of handle_depot_files\<close>

lemma foldl_select_none:
  "\<forall>x \<in> set vs. \<not> is_dated (snd x) \<Longrightarrow> foldl select_step st vs = st"
  by (induction vs arbitrary: st) (simp_all add: select_step_not_dated)

lemma get_latest_repo_info_no_match:
  assumes "\<forall>x \<in> set (probe_views cfg fromiso nt app_id (length (sent w)) repos). \<not> is_dated (snd x)"
  shows "\<exists>w1. get_latest_repo_info cfg fromiso nt repos app_id w = (None, w1) \<and>
           sent w1 = sent w @ map (branch_request cfg app_id) repos \<and>
           files w1 = files w \<and> downloaded_files w1 = downloaded_files w"
  using get_latest_repo_info_views [of cfg fromiso nt repos app_id w] foldl_select_none [OF assms, of no_selection]
  by (auto simp add: no_selection_def)

text \<open>
  Claim C8. When no candidate of \<^verbatim>\<open>REPO_LIST\<close> delivers a commit date for the branch named
  by the application identifier (no matching branch, or a failed query),
  \<open>get_latest_repo_info\<close> returns nothing and \<open>handle_depot_files\<close> returns the empty
  depot-key list and the empty depot map, without an exception. The only requests sent
  are the branch queries of the candidates, one each: no tree and no content is fetched,
  and local storage and the set of downloaded files are as before.
\<close>

theorem no_match_empty_result:
  "(\<forall>x \<in> set (probe_views cfg fromiso nt app_id (length (sent w)) (repo_list cfg)). \<not> is_dated (snd x)) \<longrightarrow>
     (\<exists>w1. get_latest_repo_info cfg fromiso nt (repo_list cfg) app_id w = (None, w1) \<and>
           handle_depot_files cfg pf fromiso nt pmf pkf app_id w = (Inr ([], []), w1) \<and>
           sent w1 = sent w @ map (branch_request cfg app_id) (repo_list cfg) \<and>
           files w1 = files w \<and> downloaded_files w1 = downloaded_files w)"
proof
  assume "\<forall>x \<in> set (probe_views cfg fromiso nt app_id (length (sent w)) (repo_list cfg)). \<not> is_dated (snd x)"
  from get_latest_repo_info_no_match [OF this] obtain w1 where
    w1: "get_latest_repo_info cfg fromiso nt (repo_list cfg) app_id w = (None, w1)"
      "sent w1 = sent w @ map (branch_request cfg app_id) (repo_list cfg)"
      "files w1 = files w" "downloaded_files w1 = downloaded_files w"
    by blast
  from w1(1) have "handle_depot_files cfg pf fromiso nt pmf pkf app_id w = (Inr ([], []), w1)"
    by (simp add: handle_depot_files_def)
  with w1 show "\<exists>w1. get_latest_repo_info cfg fromiso nt (repo_list cfg) app_id w = (None, w1) \<and>
           handle_depot_files cfg pf fromiso nt pmf pkf app_id w = (Inr ([], []), w1) \<and>
           sent w1 = sent w @ map (branch_request cfg app_id) (repo_list cfg) \<and>
           files w1 = files w \<and> downloaded_files w1 = downloaded_files w"
    by blast
qed

theorem no_match_empty_result_witness:
  "fst (handle_depot_files example_config bare_platform example_fromiso (\<lambda>n rq. Responds not_found)
          parse_manifest_filename example_pkf ''730'' fresh_world) = Inr ([], []) \<and>
   fst (get_latest_repo_info example_config example_fromiso (\<lambda>n rq. Responds not_found)
          (repo_list example_config) ''730'' fresh_world) = None \<and>
   sent (snd (handle_depot_files example_config bare_platform example_fromiso (\<lambda>n rq. Responds not_found)
          parse_manifest_filename example_pkf ''730'' fresh_world)) =
     [(''https://api.github.com/repos/first/repo/branches/730'', Some []),
      (''https://api.github.com/repos/second/repo/branches/730'', Some [])]"
proof -
  let ?nt = "\<lambda>(n::nat) (rq::request). Responds not_found"
  have h: "\<forall>x \<in> set (probe_views example_config example_fromiso ?nt ''730'' (length (sent fresh_world))
                         (repo_list example_config)). \<not> is_dated (snd x)"
    by (simp add: example_config_def view_of_def not_found_def)
  with no_match_empty_result [of example_config example_fromiso ?nt "''730''" fresh_world bare_platform
         parse_manifest_filename example_pkf]
  obtain w1 where w1: "get_latest_repo_info example_config example_fromiso ?nt (repo_list example_config) ''730'' fresh_world = (None, w1)"
     "handle_depot_files example_config bare_platform example_fromiso ?nt parse_manifest_filename example_pkf ''730'' fresh_world
        = (Inr ([], []), w1)"
     "sent w1 = sent fresh_world @ map (branch_request example_config ''730'') (repo_list example_config)"
    by blast
  have "sent fresh_world @ map (branch_request example_config ''730'') (repo_list example_config) =
     [(''https://api.github.com/repos/first/repo/branches/730'', Some []),
      (''https://api.github.com/repos/second/repo/branches/730'', Some [])]"
    by code_simp
  with w1 show ?thesis by simp
qed

lemma try_cdns_frame:
  "files (snd (try_cdns cfg nt repo commit path ts w)) = files w \<and>
   downloaded_files (snd (try_cdns cfg nt repo commit path ts w)) = downloaded_files w"
proof (induction ts arbitrary: w)
  case Nil
  then show ?case by simp
next
  case (Cons t ts)
  let ?rq = "(format_template t repo commit path, Some (headers cfg))"
  show ?case
  proof (cases "nt (length (sent w)) ?rq")
    case (Raises e)
    let ?w1 = "log_msg Debug [Lit (msg_from @ format_template t repo commit path @ msg_download_failed @ exn_str e)]
                 (w\<lparr>sent := sent w @ [?rq]\<rparr>)"
    from Cons.IH [of ?w1] Raises show ?thesis
      by (simp add: client_get_def log_msg_def Let_def)
  next
    case (Responds r)
    let ?w1 = "w\<lparr>sent := sent w @ [?rq]\<rparr>"
    from Cons.IH [of ?w1] Responds show ?thesis
      by (simp add: client_get_def Let_def)
  qed
qed

lemma attempts_frame:
  "files (snd (attempts k cfg nt repo commit path ts w)) = files w \<and>
   downloaded_files (snd (attempts k cfg nt repo commit path ts w)) = downloaded_files w"
proof (induction k arbitrary: w)
  case 0
  then show ?case by simp
next
  case (Suc k)
  obtain res w1 where t: "try_cdns cfg nt repo commit path ts w = (res, w1)"
    by (cases "try_cdns cfg nt repo commit path ts w")
  with try_cdns_frame [of cfg nt repo commit path ts w]
  have f: "files w1 = files w" "downloaded_files w1 = downloaded_files w" by simp_all
  show ?case
  proof (cases res)
    case None
    with t Suc.IH [of w1] f show ?thesis by simp
  next
    case (Some c)
    with t f show ?thesis by simp
  qed
qed

lemma fetch_file_frame:
  "files (snd (fetch_file cfg nt repo commit path w)) = files w \<and>
   downloaded_files (snd (fetch_file cfg nt repo commit path w)) = downloaded_files w"
proof -
  let ?cl = "if is_cn cfg then cn_cdn_list cfg else global_cdn_list cfg"
  obtain res w1 where a: "attempts 3 cfg nt repo commit path ?cl w = (res, w1)"
    by (cases "attempts 3 cfg nt repo commit path ?cl w")
  with attempts_frame [of 3 cfg nt repo commit path ?cl w]
  have "files w1 = files w \<and> downloaded_files w1 = downloaded_files w" by simp
  moreover from a have "snd (fetch_file cfg nt repo commit path w) = w1"
    by (cases res) (simp_all add: fetch_file_def)
  ultimately show ?thesis by simp
qed

lemma map_of_setdefault_append:
  "map_of (setdefault_append dm d m) k =
     (if k = d then Some ((case map_of dm d of None \<Rightarrow> [] | Some ms \<Rightarrow> ms) @ [m]) else map_of dm k)"
  by (induction dm d m rule: setdefault_append.induct) auto

lemma try_cdns_written:
  "written (snd (try_cdns cfg nt repo commit path ts w)) = written w"
proof (induction ts arbitrary: w)
  case Nil
  then show ?case by simp
next
  case (Cons t ts)
  let ?rq = "(format_template t repo commit path, Some (headers cfg))"
  show ?case
  proof (cases "nt (length (sent w)) ?rq")
    case (Raises e)
    let ?w1 = "log_msg Debug [Lit (msg_from @ format_template t repo commit path @ msg_download_failed @ exn_str e)]
                 (w\<lparr>sent := sent w @ [?rq]\<rparr>)"
    from Cons.IH [of ?w1] Raises show ?thesis
      by (simp add: client_get_def log_msg_def Let_def)
  next
    case (Responds r)
    let ?w1 = "w\<lparr>sent := sent w @ [?rq]\<rparr>"
    from Cons.IH [of ?w1] Responds show ?thesis
      by (simp add: client_get_def Let_def)
  qed
qed

lemma attempts_written:
  "written (snd (attempts k cfg nt repo commit path ts w)) = written w"
proof (induction k arbitrary: w)
  case 0
  then show ?case by simp
next
  case (Suc k)
  obtain res w1 where t: "try_cdns cfg nt repo commit path ts w = (res, w1)"
    by (cases "try_cdns cfg nt repo commit path ts w")
  with try_cdns_written [of cfg nt repo commit path ts w]
  have f: "written w1 = written w" by simp
  show ?case
  proof (cases res)
    case None
    with t Suc.IH [of w1] f show ?thesis by simp
  next
    case (Some c)
    with t f show ?thesis by simp
  qed
qed

lemma fetch_file_written:
  "written (snd (fetch_file cfg nt repo commit path w)) = written w"
proof -
  let ?cl = "if is_cn cfg then cn_cdn_list cfg else global_cdn_list cfg"
  obtain res w1 where a: "attempts 3 cfg nt repo commit path ?cl w = (res, w1)"
    by (cases "attempts 3 cfg nt repo commit path ?cl w")
  with attempts_written [of 3 cfg nt repo commit path ?cl w]
  have "written w1 = written w" by simp
  moreover from a have "snd (fetch_file cfg nt repo commit path w) = w1"
    by (cases res) (simp_all add: fetch_file_def)
  ultimately show ?thesis by simp
qed

lemma walk_item_exists:
  assumes "py_item item ''path'' = Inr (JStr file_path)" "ends_with file_path ''.manifest''"
    "path_exists pf w (save_path file_path) = Inr True"
  shows "walk_item cfg pf nt pmf pkf repo_info item (dl, dm) w =
     (Inr (dl, record_manifest pmf file_path dm),
      w\<lparr>logged := logged w @ [(Warning, [Lit (''Manifest already exists: '' @ save_path file_path)])]\<rparr>)"
  using assms by (simp add: walk_item_def log_msg_def)

lemma walk_item_download:
  assumes "py_item item ''path'' = Inr (JStr file_path)" "ends_with file_path ''.manifest''"
    "path_exists pf w (save_path file_path) = Inr False"
    "fetch_file cfg nt (name repo_info) (py_str pf (sha repo_info)) file_path w = (Inr c, w1)"
    "write_error pf (length (written w)) (save_path file_path) = None"
  shows "\<exists>w2. walk_item cfg pf nt pmf pkf repo_info item (dl, dm) w =
            (Inr (dl, record_manifest pmf file_path dm), w2) \<and>
          files w2 = (files w)(save_path file_path \<mapsto> c) \<and>
          written w2 = written w @ [save_path file_path] \<and>
          downloaded_files w2 = insert file_path (downloaded_files w) \<and>
          sent w2 = sent w1"
proof -
  from fetch_file_frame [of cfg nt "name repo_info" "py_str pf (sha repo_info)" file_path w]
       fetch_file_written [of cfg nt "name repo_info" "py_str pf (sha repo_info)" file_path w] assms(4)
  have "files w1 = files w" "downloaded_files w1 = downloaded_files w" "written w1 = written w"
    by simp_all
  with assms show ?thesis
    by (simp add: walk_item_def write_bytes_def log_msg_def)
qed

lemma walk_item_write_refused:
  assumes "py_item item ''path'' = Inr (JStr file_path)" "ends_with file_path ''.manifest''"
    "path_exists pf w (save_path file_path) = Inr False"
    "fetch_file cfg nt (name repo_info) (py_str pf (sha repo_info)) file_path w = (Inr c, w1)"
    "write_error pf (length (written w)) (save_path file_path) = Some e"
  shows "walk_item cfg pf nt pmf pkf repo_info item (dl, dm) w = (Inl e, w1) \<and>
         files w1 = files w \<and> written w1 = written w \<and> downloaded_files w1 = downloaded_files w"
proof -
  from fetch_file_frame [of cfg nt "name repo_info" "py_str pf (sha repo_info)" file_path w]
       fetch_file_written [of cfg nt "name repo_info" "py_str pf (sha repo_info)" file_path w] assms(4)
  have "files w1 = files w" "downloaded_files w1 = downloaded_files w" "written w1 = written w"
    by simp_all
  with assms show ?thesis
    by (simp add: walk_item_def write_bytes_def)
qed

lemma walk_item_download_fails:
  assumes "py_item item ''path'' = Inr (JStr file_path)" "ends_with file_path ''.manifest''"
    "path_exists pf w (save_path file_path) = Inr False"
    "fetch_file cfg nt (name repo_info) (py_str pf (sha repo_info)) file_path w = (Inl e, w1)"
  shows "walk_item cfg pf nt pmf pkf repo_info item (dl, dm) w = (Inl e, w1)"
  using assms by (simp add: walk_item_def)

lemma record_manifest_parsed:
  "pmf file_path = (Some d, Some m) \<Longrightarrow> d \<noteq> [] \<Longrightarrow> m \<noteq> [] \<Longrightarrow>
   map_of (record_manifest pmf file_path dm) k =
     (if k = d then Some ((case map_of dm d of None \<Rightarrow> [] | Some ms \<Rightarrow> ms) @ [m]) else map_of dm k)"
  by (simp add: record_manifest_def map_of_setdefault_append)

text \<open>
  Claim C5. Let a tree entry's path end in \<^verbatim>\<open>.manifest\<close>. If its destination already
  exists, the walker sends no request and changes neither storage nor the set of
  downloaded files: the world differs by one warning in the log only. If the destination
  does not exist, \<open>fetch_file\<close> returns bytes and the platform accepts the write, the bytes
  are stored at the destination and the path joins the set of downloaded files. In both
  branches the depot map becomes \<open>record_manifest\<close> of the path: when the classifier yields
  a depot id and a manifest id, both true values (not empty), the manifest id is appended
  to the list of that depot id, which starts empty when the key is new, and no other key
  changes. When the platform refuses the write (the directory of the destination is
  missing, as for a path below a directory of the tree), line 107 raises after the fetch,
  and storage and the set of downloaded files stay as they were.
\<close>

theorem walk_item_manifest:
  "py_item item ''path'' = Inr (JStr file_path) \<and> ends_with file_path ''.manifest'' \<longrightarrow>
     (path_exists pf w (save_path file_path) = Inr True \<longrightarrow>
        walk_item cfg pf nt pmf pkf repo_info item (dl, dm) w =
          (Inr (dl, record_manifest pmf file_path dm),
           w\<lparr>logged := logged w @ [(Warning, [Lit (''Manifest already exists: '' @ save_path file_path)])]\<rparr>)) \<and>
     (\<forall>c w1. path_exists pf w (save_path file_path) = Inr False \<and>
        fetch_file cfg nt (name repo_info) (py_str pf (sha repo_info)) file_path w = (Inr c, w1) \<and>
        write_error pf (length (written w)) (save_path file_path) = None \<longrightarrow>
        (\<exists>w2. walk_item cfg pf nt pmf pkf repo_info item (dl, dm) w =
                 (Inr (dl, record_manifest pmf file_path dm), w2) \<and>
               files w2 = (files w)(save_path file_path \<mapsto> c) \<and>
               written w2 = written w @ [save_path file_path] \<and>
               downloaded_files w2 = insert file_path (downloaded_files w) \<and>
               sent w2 = sent w1)) \<and>
     (\<forall>c w1 e. path_exists pf w (save_path file_path) = Inr False \<and>
        fetch_file cfg nt (name repo_info) (py_str pf (sha repo_info)) file_path w = (Inr c, w1) \<and>
        write_error pf (length (written w)) (save_path file_path) = Some e \<longrightarrow>
        walk_item cfg pf nt pmf pkf repo_info item (dl, dm) w = (Inl e, w1) \<and>
        files w1 = files w \<and> written w1 = written w \<and> downloaded_files w1 = downloaded_files w) \<and>
     (\<forall>d m k. pmf file_path = (Some d, Some m) \<and> d \<noteq> [] \<and> m \<noteq> [] \<longrightarrow>
        map_of (record_manifest pmf file_path dm) k =
          (if k = d then Some ((case map_of dm d of None \<Rightarrow> [] | Some ms \<Rightarrow> ms) @ [m]) else map_of dm k))"
proof (intro impI conjI allI)
  assume "py_item item ''path'' = Inr (JStr file_path) \<and> ends_with file_path ''.manifest''"
    and "path_exists pf w (save_path file_path) = Inr True"
  then show "walk_item cfg pf nt pmf pkf repo_info item (dl, dm) w =
          (Inr (dl, record_manifest pmf file_path dm),
           w\<lparr>logged := logged w @ [(Warning, [Lit (''Manifest already exists: '' @ save_path file_path)])]\<rparr>)"
    by (simp add: walk_item_exists)
next
  fix c w1
  assume "py_item item ''path'' = Inr (JStr file_path) \<and> ends_with file_path ''.manifest''"
    and "path_exists pf w (save_path file_path) = Inr False \<and>
        fetch_file cfg nt (name repo_info) (py_str pf (sha repo_info)) file_path w = (Inr c, w1) \<and>
        write_error pf (length (written w)) (save_path file_path) = None"
  then show "\<exists>w2. walk_item cfg pf nt pmf pkf repo_info item (dl, dm) w =
                 (Inr (dl, record_manifest pmf file_path dm), w2) \<and>
               files w2 = (files w)(save_path file_path \<mapsto> c) \<and>
               written w2 = written w @ [save_path file_path] \<and>
               downloaded_files w2 = insert file_path (downloaded_files w) \<and>
               sent w2 = sent w1"
    using walk_item_download [of item file_path pf w cfg nt repo_info c w1 pmf pkf dl dm] by simp
next
  fix c w1 e
  assume "py_item item ''path'' = Inr (JStr file_path) \<and> ends_with file_path ''.manifest''"
    and "path_exists pf w (save_path file_path) = Inr False \<and>
        fetch_file cfg nt (name repo_info) (py_str pf (sha repo_info)) file_path w = (Inr c, w1) \<and>
        write_error pf (length (written w)) (save_path file_path) = Some e"
  then have r: "walk_item cfg pf nt pmf pkf repo_info item (dl, dm) w = (Inl e, w1) \<and>
        files w1 = files w \<and> written w1 = written w \<and> downloaded_files w1 = downloaded_files w"
    using walk_item_write_refused [of item file_path pf w cfg nt repo_info c w1 e pmf pkf dl dm] by simp
  from r show "walk_item cfg pf nt pmf pkf repo_info item (dl, dm) w = (Inl e, w1)" by simp
  from r show "files w1 = files w" by simp
  from r show "written w1 = written w" by simp
  from r show "downloaded_files w1 = downloaded_files w" by simp
next
  fix d m k
  assume "pmf file_path = (Some d, Some m) \<and> d \<noteq> [] \<and> m \<noteq> []"
  then show "map_of (record_manifest pmf file_path dm) k =
          (if k = d then Some ((case map_of dm d of None \<Rightarrow> [] | Some ms \<Rightarrow> ms) @ [m]) else map_of dm k)"
    by (simp add: record_manifest_parsed)
qed

theorem walk_item_manifest_witness:
  "walk_item example_config bare_platform (steady nested_remote) parse_manifest_filename example_pkf second_info
     (path_item ''1000_50.manifest'') ([], [(''1000'', [''75''])]) stored_world =
     (Inr ([], [(''1000'', [''75'', ''50''])]),
      stored_world\<lparr>logged := [(Warning, [Lit ''Manifest already exists: manifests/1000_50.manifest''])]\<rparr>) \<and>
   (\<exists>w2. walk_item example_config bare_platform (steady nested_remote) parse_manifest_filename example_pkf second_info
            (path_item ''1000_50.manifest'') ([], []) fresh_world = (Inr ([], [(''1000'', [''50''])]), w2) \<and>
          files w2 = [''manifests/1000_50.manifest'' \<mapsto> ''fifty''] \<and>
          written w2 = [''manifests/1000_50.manifest''] \<and>
          downloaded_files w2 = {''1000_50.manifest''}) \<and>
   fst (walk_item example_config bare_platform (steady nested_remote) parse_manifest_filename example_pkf second_info
          (path_item ''sub/1000_50.manifest'') ([], []) fresh_world) =
     Inl (Exn ''FileNotFoundError'' ''No such file or directory: manifests/sub/1000_50.manifest'')"
proof -
  let ?item = "path_item ''1000_50.manifest''" and ?sub = "path_item ''sub/1000_50.manifest''"
    and ?nt = "steady nested_remote"
  have p: "py_item ?item ''path'' = Inr (JStr ''1000_50.manifest'') \<and> ends_with ''1000_50.manifest'' ''.manifest''"
    by code_simp
  have ps: "py_item ?sub ''path'' = Inr (JStr ''sub/1000_50.manifest'') \<and>
            ends_with ''sub/1000_50.manifest'' ''.manifest''"
    by code_simp
  have sp: "save_path ''1000_50.manifest'' = ''manifests/1000_50.manifest''" by code_simp
  have sps: "save_path ''sub/1000_50.manifest'' = ''manifests/sub/1000_50.manifest''" by code_simp
  have ex: "path_exists bare_platform stored_world (save_path ''1000_50.manifest'') = Inr True"
    unfolding sp by (simp add: path_exists_def bare_platform_def stored_world_def)
  have nex: "path_exists bare_platform fresh_world (save_path ''1000_50.manifest'') = Inr False"
    unfolding sp by (simp add: path_exists_def bare_platform_def fresh_world_def)
  have nexs: "path_exists bare_platform fresh_world (save_path ''sub/1000_50.manifest'') = Inr False"
    unfolding sps by (simp add: path_exists_def bare_platform_def fresh_world_def)
  have wr: "write_error bare_platform (length (written fresh_world)) (save_path ''1000_50.manifest'') = None"
    by code_simp
  have wrs: "write_error bare_platform (length (written fresh_world)) (save_path ''sub/1000_50.manifest'') =
      Some (Exn ''FileNotFoundError'' ''No such file or directory: manifests/sub/1000_50.manifest'')"
    by code_simp
  have parsed: "parse_manifest_filename ''1000_50.manifest'' = (Some ''1000'', Some ''50'')"
    by code_simp
  have r1: "record_manifest parse_manifest_filename ''1000_50.manifest'' [(''1000'', [''75''])] = [(''1000'', [''75'', ''50''])]"
    by (simp add: record_manifest_def parsed)
  have r2: "record_manifest parse_manifest_filename ''1000_50.manifest'' [] = [(''1000'', [''50''])]"
    by (simp add: record_manifest_def parsed)
  obtain w1 where f: "fetch_file example_config ?nt (name second_info) (py_str bare_platform (sha second_info))
                        ''1000_50.manifest'' fresh_world = (Inr ''fifty'', w1)"
  proof -
    have "fst (fetch_file example_config ?nt (name second_info) (py_str bare_platform (sha second_info))
                        ''1000_50.manifest'' fresh_world) = Inr ''fifty''"
      by code_simp
    then show ?thesis using that
      by (cases "fetch_file example_config ?nt (name second_info) (py_str bare_platform (sha second_info))
                        ''1000_50.manifest'' fresh_world") simp
  qed
  obtain w1s where fs: "fetch_file example_config ?nt (name second_info) (py_str bare_platform (sha second_info))
                        ''sub/1000_50.manifest'' fresh_world = (Inr ''fifty'', w1s)"
  proof -
    have "fst (fetch_file example_config ?nt (name second_info) (py_str bare_platform (sha second_info))
                        ''sub/1000_50.manifest'' fresh_world) = Inr ''fifty''"
      by code_simp
    then show ?thesis using that
      by (cases "fetch_file example_config ?nt (name second_info) (py_str bare_platform (sha second_info))
                        ''sub/1000_50.manifest'' fresh_world") simp
  qed
  note t1 = walk_item_manifest [of ?item "''1000_50.manifest''" bare_platform stored_world example_config ?nt
          parse_manifest_filename example_pkf second_info "[]" "[(''1000'', [''75''])]", THEN mp, OF p]
  note t2 = walk_item_manifest [of ?item "''1000_50.manifest''" bare_platform fresh_world example_config ?nt
          parse_manifest_filename example_pkf second_info "[]" "[]", THEN mp, OF p]
  note t3 = walk_item_manifest [of ?sub "''sub/1000_50.manifest''" bare_platform fresh_world example_config ?nt
          parse_manifest_filename example_pkf second_info "[]" "[]", THEN mp, OF ps]
  from t1 [THEN conjunct1, THEN mp, OF ex]
  have a: "walk_item example_config bare_platform ?nt parse_manifest_filename example_pkf second_info ?item
             ([], [(''1000'', [''75''])]) stored_world =
          (Inr ([], record_manifest parse_manifest_filename ''1000_50.manifest'' [(''1000'', [''75''])]),
           stored_world\<lparr>logged := logged stored_world @
              [(Warning, [Lit (''Manifest already exists: '' @ save_path ''1000_50.manifest'')])]\<rparr>)" .
  from t2 [THEN conjunct2, THEN conjunct1, THEN spec, THEN spec, THEN mp, OF conjI [OF nex conjI [OF f wr]]]
  obtain w2 where b: "walk_item example_config bare_platform ?nt parse_manifest_filename example_pkf second_info ?item
             ([], []) fresh_world = (Inr ([], record_manifest parse_manifest_filename ''1000_50.manifest'' []), w2)"
      "files w2 = (files fresh_world)(save_path ''1000_50.manifest'' \<mapsto> ''fifty'')"
      "written w2 = written fresh_world @ [save_path ''1000_50.manifest'']"
      "downloaded_files w2 = insert ''1000_50.manifest'' (downloaded_files fresh_world)"
    by (elim exE conjE)
  from t3 [THEN conjunct2, THEN conjunct2, THEN conjunct1, THEN spec, THEN spec, THEN spec, THEN mp,
           OF conjI [OF nexs conjI [OF fs wrs]]]
  have c: "fst (walk_item example_config bare_platform ?nt parse_manifest_filename example_pkf second_info ?sub
             ([], []) fresh_world) =
       Inl (Exn ''FileNotFoundError'' ''No such file or directory: manifests/sub/1000_50.manifest'')"
    by simp
  from a have a': "walk_item example_config bare_platform ?nt parse_manifest_filename example_pkf second_info ?item
             ([], [(''1000'', [''75''])]) stored_world =
     (Inr ([], [(''1000'', [''75'', ''50''])]),
      stored_world\<lparr>logged := [(Warning, [Lit ''Manifest already exists: manifests/1000_50.manifest''])]\<rparr>)"
    by (simp add: r1 sp stored_world_def)
  from b have b': "walk_item example_config bare_platform ?nt parse_manifest_filename example_pkf second_info ?item
             ([], []) fresh_world = (Inr ([], [(''1000'', [''50''])]), w2) \<and>
          files w2 = [''manifests/1000_50.manifest'' \<mapsto> ''fifty''] \<and>
          written w2 = [''manifests/1000_50.manifest''] \<and>
          downloaded_files w2 = {''1000_50.manifest''}"
    by (simp add: r2 sp fresh_world_def)
  then have b'': "\<exists>w2. walk_item example_config bare_platform ?nt parse_manifest_filename example_pkf second_info ?item
             ([], []) fresh_world = (Inr ([], [(''1000'', [''50''])]), w2) \<and>
          files w2 = [''manifests/1000_50.manifest'' \<mapsto> ''fifty''] \<and>
          written w2 = [''manifests/1000_50.manifest''] \<and>
          downloaded_files w2 = {''1000_50.manifest''}" by (rule exI [of _ w2])
  from conjI [OF a' conjI [OF b'' c]] show ?thesis .
qed

lemma parse_manifest_filename_Some:
  assumes "parse_manifest_filename filename \<noteq> (None, None)"
  shows "\<exists>d m. numeric_token d \<and> numeric_token m \<and> filename = d @ ''_'' @ m @ ''.manifest'' \<and>
           parse_manifest_filename filename = (Some d, Some m)"
proof -
  let ?stem = "take (length filename - 9) filename"
  let ?depot = "takeWhile (\<lambda>c. c \<noteq> CHR ''_'') ?stem"
  let ?rest = "dropWhile (\<lambda>c. c \<noteq> CHR ''_'') ?stem"
  from assms have e: "ends_with filename ''.manifest''"
    by (auto simp add: parse_manifest_filename_def split: if_splits)
  from assms e have c: "?rest \<noteq> []" "numeric_token ?depot" "numeric_token (tl ?rest)"
    by (auto simp add: parse_manifest_filename_def Let_def split: if_splits)
  from e c have r: "parse_manifest_filename filename = (Some ?depot, Some (tl ?rest))"
    by (simp add: parse_manifest_filename_def Let_def)
  from c(1) have "hd ?rest = CHR ''_''" using hd_dropWhile [of "\<lambda>c. c \<noteq> CHR ''_''" ?stem] by simp
  with c(1) have "?rest = CHR ''_'' # tl ?rest" by (cases ?rest) simp_all
  then have "?rest = ''_'' @ tl ?rest" by simp
  moreover have "?stem = ?depot @ ?rest" by simp
  ultimately have s: "?stem = ?depot @ ''_'' @ tl ?rest" by metis
  from e have "filename = ?stem @ ''.manifest''"
  proof -
    have n9: "length ''.manifest'' = (9::nat)" by code_simp
    from e have d: "drop (length filename - 9) filename = ''.manifest''"
      by (simp only: ends_with_def n9)
    have "filename = take (length filename - 9) filename @ drop (length filename - 9) filename"
      by simp
    with d show ?thesis by simp
  qed
  with s have "filename = (?depot @ ''_'' @ tl ?rest) @ ''.manifest''" by metis
  then have "filename = ?depot @ ''_'' @ tl ?rest @ ''.manifest''" by (simp only: append_assoc)
  with c r show ?thesis by blast
qed

lemma parse_manifest_filename_match:
  assumes "numeric_token d" "numeric_token m"
  shows "parse_manifest_filename (d @ ''_'' @ m @ ''.manifest'') = (Some d, Some m)"
proof -
  let ?f = "d @ ''_'' @ m @ ''.manifest''"
  from assms(1) have nd: "\<forall>c \<in> set d. c \<noteq> CHR ''_''"
    by (auto simp add: numeric_token_def list_all_iff is_digit_def)
  have e: "ends_with ?f ''.manifest''" by (simp add: ends_with_def)
  have st: "take (length ?f - 9) ?f = d @ ''_'' @ m" by simp
  from nd have tw: "takeWhile (\<lambda>c. c \<noteq> CHR ''_'') (d @ ''_'' @ m) = d"
    by (simp add: takeWhile_append2)
  from nd have dw: "dropWhile (\<lambda>c. c \<noteq> CHR ''_'') (d @ ''_'' @ m) = ''_'' @ m"
    by (simp add: dropWhile_append2)
  from e st tw dw assms show ?thesis
    by (simp add: parse_manifest_filename_def Let_def)
qed

lemma walk_item_unparsed_result:
  assumes "py_item item ''path'' = Inr (JStr file_path)" "ends_with file_path ''.manifest''"
    "pmf file_path = (None, None)"
    "walk_item cfg pf nt pmf pkf repo_info item (dl, dm) w = (Inr acc1, w1)"
  shows "acc1 = (dl, dm)"
proof -
  from assms(3) have r: "record_manifest pmf file_path dm = dm"
    by (simp add: record_manifest_def)
  from assms(1,2,4) r show ?thesis
    by (auto simp add: walk_item_def split: sum.splits bool.splits prod.splits option.splits)
qed

lemma walk_item_unparsed_exists:
  assumes "py_item item ''path'' = Inr (JStr file_path)" "ends_with file_path ''.manifest''"
    "pmf file_path = (None, None)" "path_exists pf w (save_path file_path) = Inr True"
  shows "\<exists>w2. walk_item cfg pf nt pmf pkf repo_info item (dl, dm) w = (Inr (dl, dm), w2)"
  using assms by (simp add: walk_item_def record_manifest_def)

lemma walk_item_unparsed_download:
  assumes "py_item item ''path'' = Inr (JStr file_path)" "ends_with file_path ''.manifest''"
    "pmf file_path = (None, None)" "path_exists pf w (save_path file_path) = Inr False"
    "fetch_file cfg nt (name repo_info) (py_str pf (sha repo_info)) file_path w = (Inr c, w1)"
    "write_error pf (length (written w)) (save_path file_path) = None"
  shows "\<exists>w2. walk_item cfg pf nt pmf pkf repo_info item (dl, dm) w = (Inr (dl, dm), w2)"
proof -
  from fetch_file_written [of cfg nt "name repo_info" "py_str pf (sha repo_info)" file_path w] assms(5)
  have "written w1 = written w" by simp
  with assms show ?thesis
    by (simp add: walk_item_def record_manifest_def write_bytes_def)
qed

text \<open>
  Claim C9. The Filename Classifier, modelled from the spec, yields \<open>(None, None)\<close> for
  every name that is not of the form \<^verbatim>\<open><depotId>_<manifestId>.manifest\<close> with two numeric
  tokens, among them \<^verbatim>\<open>readme.manifest\<close> and \<^verbatim>\<open>1000.manifest\<close>, and the two tokens for
  every name of that form. On the code, for any classifier: a tree entry ending in
  \<^verbatim>\<open>.manifest\<close> for which the classifier yields \<open>(None, None)\<close> leaves the depot map and the
  depot-key list as they are whenever its iteration returns; and the iteration does
  return, so that the loop goes on, when the file is already stored, or when its fetch
  returns bytes and the platform accepts the write.
\<close>

theorem malformed_name_skipped:
  "((\<nexists>d m. numeric_token d \<and> numeric_token m \<and> filename = d @ ''_'' @ m @ ''.manifest'') \<longrightarrow>
      parse_manifest_filename filename = (None, None)) \<and>
   (numeric_token d \<and> numeric_token m \<longrightarrow>
      parse_manifest_filename (d @ ''_'' @ m @ ''.manifest'') = (Some d, Some m)) \<and>
   parse_manifest_filename ''readme.manifest'' = (None, None) \<and>
   parse_manifest_filename ''1000.manifest'' = (None, None) \<and>
   (py_item item ''path'' = Inr (JStr file_path) \<and> ends_with file_path ''.manifest'' \<and>
    pmf file_path = (None, None) \<longrightarrow>
      (\<forall>acc1 w1. walk_item cfg pf nt pmf pkf repo_info item (dl, dm) w = (Inr acc1, w1) \<longrightarrow> acc1 = (dl, dm)) \<and>
      (path_exists pf w (save_path file_path) = Inr True \<longrightarrow>
         (\<exists>w2. walk_item cfg pf nt pmf pkf repo_info item (dl, dm) w = (Inr (dl, dm), w2))) \<and>
      (\<forall>c w1. path_exists pf w (save_path file_path) = Inr False \<and>
         fetch_file cfg nt (name repo_info) (py_str pf (sha repo_info)) file_path w = (Inr c, w1) \<and>
         write_error pf (length (written w)) (save_path file_path) = None \<longrightarrow>
         (\<exists>w2. walk_item cfg pf nt pmf pkf repo_info item (dl, dm) w = (Inr (dl, dm), w2))))"
proof (intro conjI impI allI)
  assume "\<nexists>d m. numeric_token d \<and> numeric_token m \<and> filename = d @ ''_'' @ m @ ''.manifest''"
  then show "parse_manifest_filename filename = (None, None)"
    using parse_manifest_filename_Some [of filename] by blast
next
  assume "numeric_token d \<and> numeric_token m"
  then have "numeric_token d" and "numeric_token m" by simp_all
  then show "parse_manifest_filename (d @ ''_'' @ m @ ''.manifest'') = (Some d, Some m)"
    by (rule parse_manifest_filename_match)
next
  show "parse_manifest_filename ''readme.manifest'' = (None, None)" by code_simp
next
  show "parse_manifest_filename ''1000.manifest'' = (None, None)" by code_simp
next
  fix acc1 w1
  assume "py_item item ''path'' = Inr (JStr file_path) \<and> ends_with file_path ''.manifest'' \<and>
    pmf file_path = (None, None)"
    and "walk_item cfg pf nt pmf pkf repo_info item (dl, dm) w = (Inr acc1, w1)"
  then show "acc1 = (dl, dm)"
    using walk_item_unparsed_result [of item file_path pmf cfg pf nt pkf repo_info dl dm w acc1 w1] by simp
next
  assume "py_item item ''path'' = Inr (JStr file_path) \<and> ends_with file_path ''.manifest'' \<and>
    pmf file_path = (None, None)"
    and "path_exists pf w (save_path file_path) = Inr True"
  then show "\<exists>w2. walk_item cfg pf nt pmf pkf repo_info item (dl, dm) w = (Inr (dl, dm), w2)"
    using walk_item_unparsed_exists [of item file_path pmf pf w cfg nt pkf repo_info dl dm] by simp
next
  fix c w1
  assume "py_item item ''path'' = Inr (JStr file_path) \<and> ends_with file_path ''.manifest'' \<and>
    pmf file_path = (None, None)"
    and "path_exists pf w (save_path file_path) = Inr False \<and>
         fetch_file cfg nt (name repo_info) (py_str pf (sha repo_info)) file_path w = (Inr c, w1) \<and>
         write_error pf (length (written w)) (save_path file_path) = None"
  then show "\<exists>w2. walk_item cfg pf nt pmf pkf repo_info item (dl, dm) w = (Inr (dl, dm), w2)"
    using walk_item_unparsed_download [of item file_path pmf pf w cfg nt repo_info c w1 pkf dl dm] by simp
qed

theorem malformed_name_skipped_witness:
  "parse_manifest_filename ''readme.manifest'' = (None, None) \<and>
   parse_manifest_filename ''1000_50.manifest'' = (Some ''1000'', Some ''50'') \<and>
   fst (walk_item example_config bare_platform (steady example_remote) parse_manifest_filename example_pkf second_info
          (path_item ''readme.manifest'') ([], [(''1000'', [''75''])]) fresh_world) =
     Inr ([], [(''1000'', [''75''])]) \<and>
   fst (walk_item example_config bare_platform (steady example_remote) parse_manifest_filename example_pkf second_info
          (path_item ''1000_50.manifest'') ([], [(''1000'', [''75''])]) stored_world) \<noteq>
     Inr ([], [(''1000'', [''75''])])"
proof -
  let ?item = "path_item ''readme.manifest''" and ?nt = "steady example_remote"
  note t = malformed_name_skipped [of "''readme.manifest''" "''1000''" "''50''" ?item "''readme.manifest''"
      parse_manifest_filename example_config bare_platform ?nt example_pkf second_info "[]"
      "[(''1000'', [''75''])]" fresh_world]
  have nt: "numeric_token ''1000'' \<and> numeric_token ''50''" by code_simp
  from t [THEN conjunct2, THEN conjunct1, THEN mp, OF nt]
  have m: "parse_manifest_filename (''1000'' @ ''_'' @ ''50'' @ ''.manifest'') = (Some ''1000'', Some ''50'')" .
  have rd: "parse_manifest_filename ''readme.manifest'' = (None, None)" by code_simp
  have u: "\<nexists>d m. numeric_token d \<and> numeric_token m \<and> ''readme.manifest'' = d @ ''_'' @ m @ ''.manifest''"
  proof
    assume "\<exists>d m. numeric_token d \<and> numeric_token m \<and> ''readme.manifest'' = d @ ''_'' @ m @ ''.manifest''"
    then obtain d m where dm: "numeric_token d" "numeric_token m" "''readme.manifest'' = d @ ''_'' @ m @ ''.manifest''"
      by (elim exE conjE)
    from parse_manifest_filename_match [OF dm(1,2)]
    have "parse_manifest_filename ''readme.manifest'' = (Some d, Some m)"
      by (simp only: dm(3) [symmetric])
    with rd show False by simp
  qed
  from t [THEN conjunct1, THEN mp, OF u] have n: "parse_manifest_filename ''readme.manifest'' = (None, None)" .
  have p: "py_item ?item ''path'' = Inr (JStr ''readme.manifest'')" by code_simp
  have e: "ends_with ''readme.manifest'' ''.manifest''" by code_simp
  have sp: "save_path ''readme.manifest'' = ''manifests/readme.manifest''" by code_simp
  have nex: "path_exists bare_platform fresh_world (save_path ''readme.manifest'') = Inr False"
    unfolding sp by (simp add: path_exists_def bare_platform_def fresh_world_def)
  have wr: "write_error bare_platform (length (written fresh_world)) (save_path ''readme.manifest'') = None"
    by code_simp
  obtain w1 where f: "fetch_file example_config ?nt (name second_info) (py_str bare_platform (sha second_info))
               ''readme.manifest'' fresh_world = (Inr ''read me'', w1)"
  proof -
    have "fst (fetch_file example_config ?nt (name second_info) (py_str bare_platform (sha second_info))
               ''readme.manifest'' fresh_world) = Inr ''read me''"
      by code_simp
    then show ?thesis using that
      by (cases "fetch_file example_config ?nt (name second_info) (py_str bare_platform (sha second_info))
               ''readme.manifest'' fresh_world") simp
  qed
  from t [THEN conjunct2, THEN conjunct2, THEN conjunct2, THEN conjunct2, THEN mp,
          OF conjI [OF p conjI [OF e n]], THEN conjunct2, THEN conjunct2, THEN spec, THEN spec, THEN mp,
          OF conjI [OF nex conjI [OF f wr]]]
  have "\<exists>w2. walk_item example_config bare_platform ?nt parse_manifest_filename example_pkf second_info ?item
          ([], [(''1000'', [''75''])]) fresh_world = (Inr ([], [(''1000'', [''75''])]), w2)" .
  then have k: "fst (walk_item example_config bare_platform ?nt parse_manifest_filename example_pkf second_info ?item
          ([], [(''1000'', [''75''])]) fresh_world) = Inr ([], [(''1000'', [''75''])])"
    by (elim exE) simp
  from m have m': "parse_manifest_filename ''1000_50.manifest'' = (Some ''1000'', Some ''50'')" by simp
  have other: "fst (walk_item example_config bare_platform ?nt parse_manifest_filename example_pkf second_info
          (path_item ''1000_50.manifest'') ([], [(''1000'', [''75''])]) stored_world) \<noteq>
     Inr ([], [(''1000'', [''75''])])"
    by code_simp
  from conjI [OF n conjI [OF m' conjI [OF k other]]] show ?thesis .
qed

lemma keyed_Some:
  "keyed pf xs = Some ps \<Longrightarrow> map snd ps = xs \<and> (\<forall>p \<in> set ps. py_int pf (snd p) = Some (fst p))"
  by (induction xs arbitrary: ps) (auto split: option.splits)

lemma keyed_map_snd:
  "\<forall>p \<in> set qs. py_int pf (snd p) = Some (fst p) \<Longrightarrow> keyed pf (map snd qs) = Some qs"
  by (induction qs) auto

lemma sorted_wrt_ge_uminus:
  "sorted (map (\<lambda>p. - fst p) (qs :: (int \<times> string) list)) \<Longrightarrow> sorted_wrt (\<lambda>a b. a \<ge> b) (map fst qs)"
  by (induction qs) auto

lemma sort_int_reverse_descending:
  assumes "sort_int_reverse pf xs = Inr ys"
  shows "descending pf ys \<and> set ys = set xs \<and> length ys = length xs"
proof -
  from assms obtain ps where ps: "keyed pf xs = Some ps" "ys = map snd (sort_key (\<lambda>p. - fst p) ps)"
    by (auto simp add: sort_int_reverse_def split: option.splits)
  let ?qs = "sort_key (\<lambda>p. - fst p) ps"
  from keyed_Some [OF ps(1)] have m: "map snd ps = xs" and k: "\<forall>p \<in> set ps. py_int pf (snd p) = Some (fst p)"
    by simp_all
  from k have "\<forall>p \<in> set ?qs. py_int pf (snd p) = Some (fst p)" by simp
  then have kq: "keyed pf (map snd ?qs) = Some ?qs" by (rule keyed_map_snd)
  have "sorted (map (\<lambda>p. - fst p) ?qs)" by (rule sorted_sort_key)
  then have "sorted_wrt (\<lambda>a b. a \<ge> b) (map fst ?qs)" by (rule sorted_wrt_ge_uminus)
  with kq ps(2) have d: "descending pf ys" by (simp add: descending_def)
  have "set ys = snd ` set ps" unfolding ps(2) by simp
  also have "\<dots> = set (map snd ps)" by simp
  finally have s: "set ys = set xs" using m by simp
  have "length ys = length ps" unfolding ps(2) by simp
  also have "\<dots> = length (map snd ps)" by simp
  finally have l: "length ys = length xs" using m by simp
  from d s l show ?thesis by simp
qed

lemma sort_depots_descending:
  "sort_depots pf dm = Inr dm1 \<Longrightarrow> map fst dm1 = map fst dm \<and> (\<forall>x \<in> set dm1. descending pf (snd x))"
proof (induction dm arbitrary: dm1)
  case Nil
  then show ?case by simp
next
  case (Cons a dm)
  obtain d ms where a: "a = (d, ms)" by (cases a)
  from Cons.prems a obtain ms1 rest1 where
    r: "sort_int_reverse pf ms = Inr ms1" "sort_depots pf dm = Inr rest1" "dm1 = (d, ms1) # rest1"
    by (auto split: sum.splits)
  from sort_int_reverse_descending [OF r(1)] have "descending pf ms1" by simp
  with Cons.IH [OF r(2)] r(3) a show ?case by simp
qed

lemma handle_depot_files_sorted:
  assumes "handle_depot_files cfg pf fromiso nt pmf pkf app_id w = (Inr (dl, dm), w1)"
  shows "\<forall>x \<in> set dm. descending pf (snd x)"
proof (cases "fst (get_latest_repo_info cfg fromiso nt (repo_list cfg) app_id w)")
  case None
  with assms have "dm = []"
    by (cases "get_latest_repo_info cfg fromiso nt (repo_list cfg) app_id w")
       (simp add: handle_depot_files_def)
  then show ?thesis by simp
next
  case (Some info)
  with assms obtain dm0 where "sort_depots pf dm0 = Inr dm"
    by (cases "get_latest_repo_info cfg fromiso nt (repo_list cfg) app_id w")
       (auto simp add: handle_depot_files_def Let_def
          split: prod.splits outcome.splits option.splits sum.splits json.splits)
  from sort_depots_descending [OF this] show ?thesis by simp
qed

text \<open>
  Claim C3, amended. Whenever \<open>handle_depot_files\<close> returns, every manifest-id list of
  the depot map is sorted descending by the integer value of its members, each of which
  has one; neighbours of equal value are allowed. The manifest ids 50, 75, 60 of the
  spec's example are sorted to 75, 60, 50.
\<close>

theorem depot_map_descending:
  "(handle_depot_files cfg pf fromiso nt pmf pkf app_id w = (Inr (dl, dm), w1) \<longrightarrow>
      (\<forall>x \<in> set dm. descending pf (snd x))) \<and>
   sort_int_reverse pf [''50'', ''75'', ''60''] = Inr [''75'', ''60'', ''50'']"
proof (intro conjI impI)
  assume "handle_depot_files cfg pf fromiso nt pmf pkf app_id w = (Inr (dl, dm), w1)"
  then show "\<forall>x \<in> set dm. descending pf (snd x)" by (rule handle_depot_files_sorted)
next
  have a: "ascii_int (max_str_digits pf) ''50'' = Some 50" "ascii_int (max_str_digits pf) ''75'' = Some 75"
    "ascii_int (max_str_digits pf) ''60'' = Some 60"
    by (simp_all add: ascii_int_def strip_def is_space_def is_digit_def)
  have "is_ascii ''50'' \<and> is_ascii ''75'' \<and> is_ascii ''60''" by code_simp
  with a have k: "keyed pf [''50'', ''75'', ''60''] = Some [(50, ''50''), (75, ''75''), (60, ''60'')]"
    by (simp add: py_int_def)
  show "sort_int_reverse pf [''50'', ''75'', ''60''] = Inr [''75'', ''60'', ''50'']"
    unfolding sort_int_reverse_def k by simp
qed

text \<open>
  Claim C3 as the spec words it does not hold: the order is not strict. A tree that lists
  \<^verbatim>\<open>1000_50.manifest\<close> and \<^verbatim>\<open>1000_050.manifest\<close> gives depot \<open>1000\<close> two manifest ids
  of integer value 50.
\<close>

theorem depot_map_not_strict:
  "fst (handle_depot_files example_config bare_platform example_fromiso (steady twin_remote)
          parse_manifest_filename example_pkf ''730'' fresh_world) =
     Inr ([], [(''1000'', [''50'', ''050''])]) \<and>
   \<not> strictly_descending bare_platform [''50'', ''050'']"
  by code_simp

theorem depot_map_descending_witness:
  "fst (handle_depot_files example_config bare_platform example_fromiso (steady example_remote)
          parse_manifest_filename example_pkf ''730'' fresh_world) =
     Inr ([(''1000'', ''keys'')], [(''1000'', [''75'', ''60'', ''50''])]) \<and>
   descending bare_platform [''75'', ''60'', ''50''] \<and>
   sort_int_reverse bare_platform [''50'', ''75'', ''60''] = Inr [''75'', ''60'', ''50'']"
proof -
  let ?run = "handle_depot_files example_config bare_platform example_fromiso (steady example_remote)
          parse_manifest_filename example_pkf ''730'' fresh_world"
  have r: "fst ?run = Inr ([(''1000'', ''keys'')], [(''1000'', [''75'', ''60'', ''50''])])"
    by code_simp
  then have e: "?run = (Inr ([(''1000'', ''keys'')], [(''1000'', [''75'', ''60'', ''50''])]), snd ?run)"
    by (cases ?run) simp
  note t = depot_map_descending [of example_config bare_platform example_fromiso "steady example_remote"
     parse_manifest_filename example_pkf "''730''" fresh_world "[(''1000'', ''keys'')]"
     "[(''1000'', [''75'', ''60'', ''50''])]" "snd ?run"]
  from t [THEN conjunct1, THEN mp, OF e]
  have "\<forall>x \<in> set [(''1000'', [''75'', ''60'', ''50''])]. descending bare_platform (snd x)" .
  then have d: "descending bare_platform [''75'', ''60'', ''50'']" by simp
  from t [THEN conjunct2]
  have s: "sort_int_reverse bare_platform [''50'', ''75'', ''60''] = Inr [''75'', ''60'', ''50'']" .
  from conjI [OF r conjI [OF d s]] show ?thesis .
qed

end
